theory Spec2Isabelle
  imports Main "HOL-Library.AList" "HOL-Library.Sublist"
begin

section \<open>Sessions\<close>

text \<open>
  A session is the dictionary that \<open>load_lectures\<close> and \<open>load_indexes\<close> build for one
  row of a table: the course code, the text of the TYPE column (\<open>''LAB''\<close>, \<open>''TUT''\<close>,
  or whatever the lecture table holds), the weekday as \<open>day_to_index\<close> returns it
  (0 for Monday to 4 for Friday), the start and end minute, and the set of teaching
  weeks.  The field \<open>finish\<close> is the dictionary entry \<open>"end"\<close>, \<open>stype\<close> is \<open>"type"\<close>.
  The entry \<open>"index"\<close> of an index session repeats the key under which the session is
  stored and is read by no function of the solver, so the record leaves it out.
\<close>

record session =
  course :: string
  stype :: string
  day :: nat
  start :: int
  finish :: int
  weeks :: "int set"

section \<open>Overlap detection helpers\<close>

definition sessions_overlap :: "session \<Rightarrow> session \<Rightarrow> bool" where
  "sessions_overlap a b =
     (if day a \<noteq> day b then False
      else \<not> (finish a \<le> start b \<or> finish b \<le> start a))"

definition labs_conflict :: "session \<Rightarrow> session \<Rightarrow> bool" where
  "labs_conflict a b =
     (if \<not> sessions_overlap a b then False
      else weeks a \<inter> weeks b \<noteq> {})"

definition strict_conflict :: "session \<Rightarrow> session \<Rightarrow> bool" where
  "strict_conflict a b =
     (if \<not> sessions_overlap a b then False
      else if stype a = ''LAB'' \<and> stype b = ''LAB'' then labs_conflict a b
      else True)"

section \<open>The constraint model\<close>

text \<open>
  \<open>index_map\<close> is a Python dictionary from the pair (course, index) to the list of
  sessions of that index.  Its iteration order is its insertion order, so it is an
  association list here; a dictionary has no repeated key, which the theorems that
  read an entry back by its key assume as \<open>distinct (map fst index_map)\<close>.
\<close>

type_synonym key = "string \<times> int"
type_synonym index_map = "(key \<times> session list) list"

text \<open>
  The Boolean variables of the model.  \<open>build_model\<close> creates one variable per key of
  \<open>index_map\<close> and stores it in the dictionary \<open>chosen\<close> under that key, so the variable
  \<open>chosen[(c, i)]\<close> is \<open>Chosen c i\<close>; \<open>campus_day[d]\<close> is \<open>CampusDay d\<close>.
\<close>

datatype var = Chosen string int | CampusDay nat

text \<open>
  The four shapes of constraint that \<open>build_model\<close> adds:
  \<open>model.Add(sum(xs) == 1)\<close>, \<open>model.Add(x == 0)\<close>, \<open>model.Add(x + y <= 1)\<close> and
  \<open>model.AddMaxEquality(t, xs)\<close>.
\<close>

datatype constr =
    SumEq1 "var list"
  | Eq0 var
  | SumLe1 var var
  | MaxEq var "var list"

record cp_model =
  bool_vars :: "var list"
  constraints :: "constr list"
  minimize :: "var list"

text \<open>What it means for an assignment of integers to the variables to satisfy the model.\<close>

fun holds :: "(var \<Rightarrow> int) \<Rightarrow> constr \<Rightarrow> bool" where
  "holds v (SumEq1 xs) = (sum_list (map v xs) = 1)"
| "holds v (Eq0 x) = (v x = 0)"
| "holds v (SumLe1 x y) = (v x + v y \<le> 1)"
| "holds v (MaxEq t xs) = (v t = Max (set (map v xs)))"

definition feasible :: "cp_model \<Rightarrow> (var \<Rightarrow> int) \<Rightarrow> bool" where
  "feasible m v =
     (list_all (\<lambda>x. v x = 0 \<or> v x = 1) (bool_vars m) \<and> list_all (holds v) (constraints m))"

section \<open>Building the model\<close>

definition chosen_vars :: "index_map \<Rightarrow> (key \<times> var) list" where
  "chosen_vars index_map = [((c, idx), Chosen c idx). ((c, idx), sessions) \<leftarrow> index_map]"

definition eligible :: "index_map \<Rightarrow> string \<Rightarrow> var list" where
  "eligible index_map crs =
     [Chosen c idx. ((c, idx), sessions) \<leftarrow> index_map, c = crs]"

definition exactly_one :: "index_map \<Rightarrow> string list \<Rightarrow> constr list" where
  "exactly_one index_map selected_courses =
     concat (map (\<lambda>crs.
        if eligible index_map crs \<noteq> [] then [SumEq1 (eligible index_map crs)] else [])
       selected_courses)"

text \<open>The lines that the loop over the selected courses prints.\<close>

definition warnings :: "index_map \<Rightarrow> string list \<Rightarrow> string list" where
  "warnings index_map selected_courses =
     [''Warning: No indexes found for course '' @ crs.
        crs \<leftarrow> selected_courses, eligible index_map crs = []]"

definition all_index_sessions :: "index_map \<Rightarrow> (string \<times> int \<times> session) list" where
  "all_index_sessions index_map =
     [(c, idx, s). ((c, idx), sessions) \<leftarrow> index_map, s \<leftarrow> sessions]"

text \<open>
  The body of the loop over the lectures, for one index session and one lecture: the
  constraints it adds.
\<close>

definition lecture_check :: "string \<times> int \<times> session \<Rightarrow> session \<Rightarrow> constr list" where
  "lecture_check e lec =
     (case e of (c1, i1, s1) \<Rightarrow>
        if strict_conflict s1 lec then
          (if weeks s1 \<inter> weeks lec \<noteq> {} then [Eq0 (Chosen c1 i1)] else [])
        else [])"

definition lecture_constraints ::
  "(string \<times> int \<times> session) list \<Rightarrow> session list \<Rightarrow> constr list" where
  "lecture_constraints ais lectures =
     [c. i \<leftarrow> [0..<length ais], lec \<leftarrow> lectures, c \<leftarrow> lecture_check (ais ! i) lec]"

text \<open>The body of the inner loop over pairs of index sessions.\<close>

definition pair_check ::
  "string \<times> int \<times> session \<Rightarrow> string \<times> int \<times> session \<Rightarrow> constr list" where
  "pair_check e1 e2 =
     (case e1 of (c1, i1, s1) \<Rightarrow> case e2 of (c2, i2, s2) \<Rightarrow>
        if c1 = c2 then []
        else if strict_conflict s1 s2 then
          (if weeks s1 \<inter> weeks s2 \<noteq> {} then [SumLe1 (Chosen c1 i1) (Chosen c2 i2)] else [])
        else [])"

definition index_constraints :: "(string \<times> int \<times> session) list \<Rightarrow> constr list" where
  "index_constraints ais =
     [c. i \<leftarrow> [0..<length ais], j \<leftarrow> [i + 1..<length ais], c \<leftarrow> pair_check (ais ! i) (ais ! j)]"

definition day_sessions :: "index_map \<Rightarrow> nat \<Rightarrow> var list" where
  "day_sessions index_map d =
     [Chosen c idx. ((c, idx), sessions) \<leftarrow> index_map, s \<leftarrow> sessions,
        day s = d \<and> (stype s = ''TUT'' \<or> stype s = ''LAB'')]"

definition campus_constraint :: "index_map \<Rightarrow> nat \<Rightarrow> constr" where
  "campus_constraint index_map d =
     (if day_sessions index_map d \<noteq> [] then MaxEq (CampusDay d) (day_sessions index_map d)
      else Eq0 (CampusDay d))"

text \<open>
  \<open>build_model\<close> returns the model, the dictionary \<open>chosen\<close> and the list \<open>campus_day\<close>;
  \<open>printed\<close> holds the warning lines it writes to the standard output.
\<close>

record build =
  model :: cp_model
  chosen :: "(key \<times> var) list"
  campus_day :: "var list"
  printed :: "string list"

definition build_model :: "session list \<Rightarrow> index_map \<Rightarrow> string list \<Rightarrow> build" where
  "build_model lectures index_map selected_courses =
     (let chosen' = chosen_vars index_map;
          ais = all_index_sessions index_map;
          campus = map CampusDay [0..<5]
      in \<lparr> model = \<lparr> bool_vars = map snd chosen' @ campus,
                      constraints =
                        exactly_one index_map selected_courses
                        @ lecture_constraints ais lectures
                        @ index_constraints ais
                        @ map (campus_constraint index_map) [0..<5],
                      minimize = campus \<rparr>,
           chosen = chosen',
           campus_day = campus,
           printed = warnings index_map selected_courses \<rparr>)"

section \<open>The solver as a collaborator\<close>

text \<open>
  The CP-SAT solver is a library outside the repository.  \<open>solver.Solve(model)\<close> returns
  a status, and \<open>solver.Value(x)\<close> then reads the value of a variable, so a solver is a
  function from the model to a status and an assignment.  The one property of the
  library that the theorems rely on is \<open>sound_on\<close>: when the status is \<open>OPTIMAL\<close> or
  \<open>FEASIBLE\<close>, the assignment satisfies the model.  The time limit of ten seconds is part
  of the solver: on a model it cannot settle in time it answers \<open>UNKNOWN\<close>.
\<close>

datatype cp_status = UNKNOWN | MODEL_INVALID | FEASIBLE | INFEASIBLE | OPTIMAL

record response =
  status :: cp_status
  value_of :: "var \<Rightarrow> int"

type_synonym cp_solver = "cp_model \<Rightarrow> response"

definition sound_on :: "cp_solver \<Rightarrow> cp_model \<Rightarrow> bool" where
  "sound_on solver m =
     (status (solver m) = OPTIMAL \<or> status (solver m) = FEASIBLE
        \<longrightarrow> feasible m (value_of (solver m)))"

section \<open>Infeasibility analysis\<close>

text \<open>\<open>str(i)\<close> for an integer, as the f-strings of the messages format an index.\<close>

fun str_nat :: "nat \<Rightarrow> string" where
  "str_nat n =
     (if n < 10 then [char_of (48 + n)]
      else str_nat (n div 10) @ [char_of (48 + n mod 10)])"

declare str_nat.simps [simp del]

definition py_str :: "int \<Rightarrow> string" where
  "py_str i = (if i < 0 then CHR ''-'' # str_nat (nat (- i)) else str_nat (nat i))"

text \<open>
  \<open>index_map[k]\<close>.  Every key that the code looks up was taken from the dictionary
  itself, so the lookup never raises \<open>KeyError\<close>; the branch \<open>None\<close> is never reached.
\<close>

definition lookup :: "index_map \<Rightarrow> key \<Rightarrow> session list" where
  "lookup index_map k = (case map_of index_map k of Some sessions \<Rightarrow> sessions | None \<Rightarrow> [])"

definition keys_of_course :: "index_map \<Rightarrow> string \<Rightarrow> key list" where
  "keys_of_course index_map crs = [(c, idx). ((c, idx), sessions) \<leftarrow> index_map, c = crs]"

text \<open>
  The two nested scans of \<open>analyze_infeasibility\<close> return at their first hit.  Each is
  modelled by the list of the messages of all hits in scan order; the function returns
  the head of the first list that is not empty.
\<close>

definition lecture_hits :: "session list \<Rightarrow> index_map \<Rightarrow> string list \<Rightarrow> string list" where
  "lecture_hits lectures index_map selected_courses =
     [''Conflict: '' @ crs @ '' lecture clashes with '' @ other_course @ '' '' @ stype s
        @ '' (Index '' @ py_str idx @ '')''.
        crs \<leftarrow> selected_courses,
        lec \<leftarrow> filter (\<lambda>lec. course lec = crs) lectures,
        other_course \<leftarrow> filter (\<lambda>c. c \<noteq> crs) selected_courses,
        (c, idx) \<leftarrow> keys_of_course index_map other_course,
        s \<leftarrow> lookup index_map (c, idx),
        strict_conflict lec s,
        weeks lec \<inter> weeks s \<noteq> {}]"

definition course_pairs :: "string list \<Rightarrow> (string \<times> string) list" where
  "course_pairs selected_courses =
     [(selected_courses ! i, c2).
        i \<leftarrow> [0..<length selected_courses], c2 \<leftarrow> drop (i + 1) selected_courses]"

definition index_hits :: "index_map \<Rightarrow> string list \<Rightarrow> string list" where
  "index_hits index_map selected_courses =
     [''Conflict: '' @ c1 @ '' Index '' @ py_str idx1 @ '' clashes with '' @ c2
        @ '' Index '' @ py_str idx2.
        (c1, c2) \<leftarrow> course_pairs selected_courses,
        (c1', idx1) \<leftarrow> keys_of_course index_map c1,
        (c2', idx2) \<leftarrow> keys_of_course index_map c2,
        s1 \<leftarrow> lookup index_map (c1, idx1),
        s2 \<leftarrow> lookup index_map (c2, idx2),
        strict_conflict s1 s2,
        weeks s1 \<inter> weeks s2 \<noteq> {}]"

definition analyze_infeasibility :: "session list \<Rightarrow> index_map \<Rightarrow> string list \<Rightarrow> string" where
  "analyze_infeasibility lectures index_map selected_courses =
     (case lecture_hits lectures index_map selected_courses of
        msg # rest \<Rightarrow> msg
      | [] \<Rightarrow>
         (case index_hits index_map selected_courses of
            msg # rest \<Rightarrow> msg
          | [] \<Rightarrow> ''No feasible schedule found due to timing conflicts''))"

section \<open>The solve wrapper of the web application\<close>

text \<open>
  The result dictionary: \<open>{"success": True, "indexes": ..., "timetable": ...,
  "campus_days": ...}\<close> or \<open>{"success": False, "error": ...}\<close>.  \<open>indexes\<close> is a dictionary
  from the course to an index; assigning to a key that is present overwrites its value
  in place, which is \<open>AList.update\<close>.
\<close>

datatype result =
    Success (indexes: "(string \<times> int) list") (timetable: "session list") (campus_days: int)
  | Failure (error: string)

definition solve :: "cp_solver \<Rightarrow> session list \<Rightarrow> index_map \<Rightarrow> string list \<Rightarrow> result" where
  "solve solver lectures index_map selected_courses =
     (let b = build_model lectures index_map selected_courses;
          r = solver (model b)
      in if status r \<noteq> OPTIMAL \<and> status r \<noteq> FEASIBLE then
           Failure (analyze_infeasibility lectures index_map selected_courses)
         else
           Success
             (fold (\<lambda>((c, idx), x) chosen_indexes.
                      if value_of r x = 1 then AList.update c idx chosen_indexes
                      else chosen_indexes)
                (chosen b) [])
             ([s\<lparr>course := c\<rparr>.
                 ((c, idx), x) \<leftarrow> chosen b, value_of r x = 1, s \<leftarrow> lookup index_map (c, idx)]
              @ lectures)
             (sum_list [value_of r (campus_day b ! d). d \<leftarrow> [0..<5]]))"

section \<open>Ranked enumeration of the console planner\<close>

text \<open>
  One collected solution: the value of every variable of \<open>chosen\<close>, and the number of
  campus days.
\<close>

record solution =
  sol_chosen :: "(key \<times> int) list"
  sol_campus_days :: int

text \<open>
  The state of the \<open>SolutionCollector\<close>; \<open>stop_requested\<close> records that the callback
  has called \<open>StopSearch\<close>.
\<close>

record collector =
  solutions :: "solution list"
  max_solutions :: int
  solution_count :: int
  stop_requested :: bool

definition on_solution_callback ::
  "(key \<times> var) list \<Rightarrow> var list \<Rightarrow> collector \<Rightarrow> (var \<Rightarrow> int) \<Rightarrow> collector" where
  "on_solution_callback chosen' campus collector' v =
     (if solution_count collector' \<ge> max_solutions collector' then
        collector'\<lparr>stop_requested := True\<rparr>
      else
        collector'\<lparr>
          solutions := solutions collector'
            @ [\<lparr> sol_chosen = [(k, v x). (k, x) \<leftarrow> chosen'],
                  sol_campus_days = sum_list [v (campus ! d). d \<leftarrow> [0..<5]] \<rparr>],
          solution_count := solution_count collector' + 1\<rparr>)"

text \<open>
  The search of the solver, seen from the callback: the solver calls it once for each
  solution it finds, in the order it finds them, until the callback has asked it to
  stop or the search ends.
\<close>

fun search ::
  "(collector \<Rightarrow> (var \<Rightarrow> int) \<Rightarrow> collector) \<Rightarrow> collector \<Rightarrow> (var \<Rightarrow> int) list \<Rightarrow> collector" where
  "search callback collector' [] = collector'"
| "search callback collector' (v # vs) =
     (let collector'' = callback collector' v
      in if stop_requested collector'' then collector'' else search callback collector'' vs)"

text \<open>\<open>xs[:n]\<close> for a Python list and an integer.\<close>

definition slice_to :: "'a list \<Rightarrow> int \<Rightarrow> 'a list" where
  "slice_to xs n = (if 0 \<le> n then take (nat n) xs else take (length xs - nat (- n)) xs)"

text \<open>
  \<open>solve\<close> of the planner.  \<open>found\<close> is the solver: the solutions it finds on the model,
  in discovery order.  \<open>list.sort\<close> with a key is a stable sort, as \<open>sort_key\<close> is.  The
  result is \<open>None\<close> when nothing was collected.
\<close>

definition planner_solve ::
  "(cp_model \<Rightarrow> (var \<Rightarrow> int) list) \<Rightarrow> session list \<Rightarrow> index_map \<Rightarrow> string list \<Rightarrow> int
     \<Rightarrow> solution list option" where
  "planner_solve found lectures index_map selected_courses num_solutions =
     (let b = build_model lectures index_map selected_courses;
          collector' =
            search (on_solution_callback (chosen b) (campus_day b))
              \<lparr> solutions = [], max_solutions = num_solutions, solution_count = 0,
                stop_requested = False \<rparr>
              (found (model b));
          sols = sort_key sol_campus_days (solutions collector')
      in if solutions collector' = [] then None else Some (slice_to sols num_solutions))"

text \<open>The default of the parameter \<open>num_solutions\<close>.\<close>

definition num_solutions_default :: int where
  "num_solutions_default = 3"

section \<open>Loading the index table\<close>

text \<open>
  Strings are lists of characters, a character being a code point below 256.  Among
  these, \<open>str.isspace\<close> holds of the code points 9 to 13, 28 to 32, 133 and 160, and the
  decimal digits that \<open>int\<close> accepts are \<open>0\<close> to \<open>9\<close>.
\<close>

definition isspace :: "char \<Rightarrow> bool" where
  "isspace c = ((of_char c :: nat) \<in> {9, 10, 11, 12, 13, 28, 29, 30, 31, 32, 133, 160})"

definition py_strip :: "string \<Rightarrow> string" where
  "py_strip s = rev (dropWhile isspace (rev (dropWhile isspace s)))"

definition is_decimal :: "char \<Rightarrow> bool" where
  "is_decimal c = (48 \<le> (of_char c :: nat) \<and> (of_char c :: nat) \<le> 57)"

definition digit_value :: "char \<Rightarrow> int" where
  "digit_value c = int (of_char c) - 48"

text \<open>
  \<open>int(s)\<close> for a string: surrounding whitespace, an optional sign, then decimal
  digits, where single underscores may stand between digits.  \<open>None\<close> is \<open>ValueError\<close>.
  (The limit that recent interpreters put on the number of digits is not modelled.)
\<close>

fun digits_from :: "int \<Rightarrow> string \<Rightarrow> int option" where
  "digits_from acc [] = Some acc"
| "digits_from acc (c # cs) =
     (if is_decimal c then digits_from (10 * acc + digit_value c) cs
      else if c = CHR ''_'' then
        (case cs of
           [] \<Rightarrow> None
         | d # ds \<Rightarrow> if is_decimal d then digits_from (10 * acc + digit_value d) ds else None)
      else None)"

definition py_digits :: "string \<Rightarrow> int option" where
  "py_digits s =
     (case s of
        [] \<Rightarrow> None
      | c # cs \<Rightarrow> if is_decimal c then digits_from (digit_value c) cs else None)"

definition py_int :: "string \<Rightarrow> int option" where
  "py_int s =
     (case py_strip s of
        [] \<Rightarrow> None
      | c # cs \<Rightarrow>
          if c = CHR ''-'' then map_option uminus (py_digits cs)
          else if c = CHR ''+'' then py_digits cs
          else py_digits (c # cs))"

text \<open>\<open>s.replace(old, "")\<close>: every occurrence of \<open>old\<close>, from the left, is removed.\<close>

function remove_all :: "string \<Rightarrow> string \<Rightarrow> string" where
  "remove_all old [] = []"
| "remove_all old (c # cs) =
     (if old \<noteq> [] \<and> prefix old (c # cs) then remove_all old (drop (length old) (c # cs))
      else c # remove_all old cs)"
  by pat_completeness auto
termination
  by (relation "measure (\<lambda>(old, s). length s)") (auto simp: neq_Nil_conv)

text \<open>\<open>s.split(sep)\<close> for a separator of one character: never an empty list.\<close>

fun py_split :: "char \<Rightarrow> string \<Rightarrow> string list" where
  "py_split sep [] = [[]]"
| "py_split sep (c # cs) =
     (case py_split sep cs of
        [] \<Rightarrow> [[c]]
      | p # ps \<Rightarrow> if c = sep then [] # p # ps else (c # p) # ps)"

text \<open>
  A cell of a spreadsheet row as the loader sees it: a string, an integer, or a blank
  (a value that is no string and that \<open>int\<close> rejects, as NaN is).
\<close>

datatype cell = Str string | Num int | Blank

definition parse_weeks :: "cell \<Rightarrow> string \<Rightarrow> int set" where
  "parse_weeks remark week_pattern =
     (let default_weeks =
            (if week_pattern = ''even'' then {2, 4, 6, 8, 10, 12}
             else if week_pattern = ''odd'' then {1, 3, 5, 7, 9, 11, 13}
             else set [1..13])
      in case remark of
           Str r \<Rightarrow>
             if py_strip r = [] then default_weeks
             else
               (let week_nums = py_split CHR '','' (remove_all ''Teaching Wk'' r)
                in case those (map (\<lambda>w. py_int (py_strip w)) week_nums) of
                     Some ns \<Rightarrow>
                       (let parsed_weeks = set ns
                        in if week_pattern = ''even'' then parsed_weeks \<inter> {2, 4, 6, 8, 10, 12}
                           else if week_pattern = ''odd'' then
                             parsed_weeks \<inter> {1, 3, 5, 7, 9, 11, 13}
                           else parsed_weeks)
                   | None \<Rightarrow> default_weeks)
         | Num n \<Rightarrow> default_weeks
         | Blank \<Rightarrow> default_weeks)"

text \<open>
  \<open>str.title\<close> on letters \<open>a\<close> to \<open>z\<close> and \<open>A\<close> to \<open>Z\<close>: a letter that follows a letter
  is made lower case, any other letter upper case.  A character above 127 is left as it
  is; no key of the weekday table holds one, so a string with such a character is
  rejected by \<open>day_to_index\<close> whatever its case.
\<close>

definition is_lower :: "char \<Rightarrow> bool" where
  "is_lower c = (97 \<le> (of_char c :: nat) \<and> (of_char c :: nat) \<le> 122)"

definition is_upper :: "char \<Rightarrow> bool" where
  "is_upper c = (65 \<le> (of_char c :: nat) \<and> (of_char c :: nat) \<le> 90)"

fun title_from :: "bool \<Rightarrow> string \<Rightarrow> string" where
  "title_from previous_is_cased [] = []"
| "title_from previous_is_cased (c # cs) =
     (if is_lower c then
        (if previous_is_cased then c else char_of ((of_char c :: nat) - 32)) # title_from True cs
      else if is_upper c then
        (if previous_is_cased then char_of ((of_char c :: nat) + 32) else c) # title_from True cs
      else c # title_from False cs)"

definition day_mapping :: "(string \<times> nat) list" where
  "day_mapping =
     [(''Mon'', 0), (''Monday'', 0), (''Tue'', 1), (''Tuesday'', 1), (''Wed'', 2),
      (''Wednesday'', 2), (''Thu'', 3), (''Thursday'', 3), (''Fri'', 4), (''Friday'', 4)]"

text \<open>\<open>None\<close> is an exception: \<open>ValueError\<close> for an unknown day, \<open>AttributeError\<close> for a
  cell that is not a string.\<close>

definition day_to_index :: "cell \<Rightarrow> nat option" where
  "day_to_index d =
     (case d of
        Str s \<Rightarrow> map_of day_mapping (title_from False (py_strip s))
      | Num n \<Rightarrow> None
      | Blank \<Rightarrow> None)"

definition time_to_minutes :: "cell \<Rightarrow> int option" where
  "time_to_minutes t =
     (case t of
        Str s \<Rightarrow>
          (let t' = py_strip s
           in if CHR '':'' \<in> set t' then
                (case py_split CHR '':'' t' of
                   [a, b] \<Rightarrow>
                     (case py_int a of
                        None \<Rightarrow> None
                      | Some h \<Rightarrow> (case py_int b of None \<Rightarrow> None | Some m \<Rightarrow> Some (h * 60 + m)))
                 | _ \<Rightarrow> None)
              else if length t' \<le> 2 then
                (case py_int t' of None \<Rightarrow> None | Some h \<Rightarrow> Some (h * 60 + 0))
              else if length t' = 3 then
                (case py_int (take 1 t') of
                   None \<Rightarrow> None
                 | Some h \<Rightarrow>
                     (case py_int (drop 1 t') of None \<Rightarrow> None | Some m \<Rightarrow> Some (h * 60 + m)))
              else if length t' = 4 then
                (case py_int (take 2 t') of
                   None \<Rightarrow> None
                 | Some h \<Rightarrow>
                     (case py_int (drop 2 t') of None \<Rightarrow> None | Some m \<Rightarrow> Some (h * 60 + m)))
              else None)
      | Num n \<Rightarrow> Some n
      | Blank \<Rightarrow> None)"

text \<open>
  A row of the index table.  \<open>r_remark\<close> is \<open>None\<close> when the table has no column
  \<open>Remark\<close>, where \<open>row.get("Remark", "")\<close> is the empty string.
\<close>

record index_row =
  r_course :: string
  r_index :: int
  r_type :: string
  r_day :: cell
  r_start :: cell
  r_end :: cell
  r_remark :: "cell option"

text \<open>The session dictionary built inside the \<open>try\<close>; \<open>None\<close> when an exception is raised.\<close>

definition index_session :: "index_row \<Rightarrow> string \<Rightarrow> session option" where
  "index_session row week_pattern =
     (case day_to_index (r_day row) of
        None \<Rightarrow> None
      | Some d \<Rightarrow>
         (case time_to_minutes (r_start row) of
            None \<Rightarrow> None
          | Some st \<Rightarrow>
             (case time_to_minutes (r_end row) of
                None \<Rightarrow> None
              | Some en \<Rightarrow>
                  Some \<lparr> course = r_course row, stype = r_type row, day = d, start = st,
                         finish = en,
                         weeks = parse_weeks
                           (case r_remark row of None \<Rightarrow> Str [] | Some c \<Rightarrow> c) week_pattern \<rparr>)))"

definition load_row :: "string list \<Rightarrow> string \<Rightarrow> index_row \<Rightarrow> index_map \<Rightarrow> index_map" where
  "load_row selected_courses week_pattern row index_map =
     (if r_course row \<notin> set selected_courses then index_map
      else
        (let k = (r_course row, r_index row);
             index_map' =
               (if k \<notin> fst ` set index_map then AList.update k [] index_map else index_map)
         in case index_session row week_pattern of
              None \<Rightarrow> index_map'
            | Some s \<Rightarrow> AList.map_entry k (\<lambda>sessions. sessions @ [s]) index_map'))"

definition load_indexes :: "index_row list \<Rightarrow> string list \<Rightarrow> string \<Rightarrow> index_map" where
  "load_indexes rows selected_courses week_pattern =
     fold (load_row selected_courses week_pattern) rows []"

section \<open>Example data\<close>

text \<open>A session written in one line, for the concrete timetables of the examples.\<close>

abbreviation session_at :: "string \<Rightarrow> string \<Rightarrow> nat \<Rightarrow> int \<Rightarrow> int \<Rightarrow> int set \<Rightarrow> session" where
  "session_at c t d s e w \<equiv> \<lparr>course = c, stype = t, day = d, start = s, finish = e, weeks = w\<rparr>"

text \<open>
  A solver for the examples: whatever the model, it answers the status \<open>st\<close> and the
  assignment that gives 1 to the variables of \<open>ones\<close> and 0 to every other variable.
\<close>

definition answering :: "cp_status \<Rightarrow> var list \<Rightarrow> cp_solver" where
  "answering st ones m = \<lparr>status = st, value_of = (\<lambda>x. if x \<in> set ones then 1 else 0)\<rparr>"

section \<open>The conflict evaluator\<close>

lemma sessions_overlap_iff:
  "sessions_overlap a b = (day a = day b \<and> start a < finish b \<and> start b < finish a)"
  by (auto simp: sessions_overlap_def)

lemma sessions_overlap_sym: "sessions_overlap a b = sessions_overlap b a"
  by (auto simp: sessions_overlap_iff)

lemma strict_conflict_sym: "strict_conflict a b = strict_conflict b a"
  by (auto simp: strict_conflict_def labs_conflict_def sessions_overlap_iff)

text \<open>
  C4.  Two sessions overlap exactly when they are on the same weekday and each starts
  before the other ends (half-open intervals: a session that ends when the other starts
  does not overlap it); and two sessions on different weekdays never conflict, whatever
  their times and types.
\<close>

theorem sessions_overlap_half_open:
  "sessions_overlap a b = (day a = day b \<and> start a < finish b \<and> start b < finish a)
   \<and> (finish a = start b \<longrightarrow> \<not> sessions_overlap a b)
   \<and> (day a \<noteq> day b \<longrightarrow> \<not> strict_conflict a b)"
  by (auto simp: sessions_overlap_def strict_conflict_def)

theorem sessions_overlap_half_open_witness:
  "day \<lparr>course = ''SC1'', stype = ''TUT'', day = 0, start = 540, finish = 600, weeks = {1, 2}\<rparr>
     \<noteq> day \<lparr>course = ''SC2'', stype = ''TUT'', day = 1, start = 540, finish = 600, weeks = {1, 2}\<rparr>
   \<and> \<not> strict_conflict
       \<lparr>course = ''SC1'', stype = ''TUT'', day = 0, start = 540, finish = 600, weeks = {1, 2}\<rparr>
       \<lparr>course = ''SC2'', stype = ''TUT'', day = 1, start = 540, finish = 600, weeks = {1, 2}\<rparr>
   \<and> finish \<lparr>course = ''SC1'', stype = ''TUT'', day = 0, start = 540, finish = 600, weeks = {1, 2}\<rparr>
     = start \<lparr>course = ''SC2'', stype = ''LAB'', day = 0, start = 600, finish = 660, weeks = {1, 2}\<rparr>
   \<and> \<not> sessions_overlap
       \<lparr>course = ''SC1'', stype = ''TUT'', day = 0, start = 540, finish = 600, weeks = {1, 2}\<rparr>
       \<lparr>course = ''SC2'', stype = ''LAB'', day = 0, start = 600, finish = 660, weeks = {1, 2}\<rparr>"
  using sessions_overlap_half_open
      [of "\<lparr>course = ''SC1'', stype = ''TUT'', day = 0, start = 540, finish = 600, weeks = {1, 2}\<rparr>"
          "\<lparr>course = ''SC2'', stype = ''TUT'', day = 1, start = 540, finish = 600, weeks = {1, 2}\<rparr>"]
    sessions_overlap_half_open
      [of "\<lparr>course = ''SC1'', stype = ''TUT'', day = 0, start = 540, finish = 600, weeks = {1, 2}\<rparr>"
          "\<lparr>course = ''SC2'', stype = ''LAB'', day = 0, start = 600, finish = 660, weeks = {1, 2}\<rparr>"]
  by simp

text \<open>
  C3.  For two sessions that are both of type LAB and overlap in time on the same
  weekday, \<open>strict_conflict\<close> holds exactly when their week sets intersect; two LAB
  sessions with disjoint week sets never conflict, even in the same slot.
\<close>

theorem lab_lab_conflict_iff_weeks:
  assumes "stype a = ''LAB''" and "stype b = ''LAB''"
  shows "(sessions_overlap a b \<longrightarrow> strict_conflict a b = (weeks a \<inter> weeks b \<noteq> {}))
         \<and> (weeks a \<inter> weeks b = {} \<longrightarrow> \<not> strict_conflict a b)"
  using assms by (auto simp: strict_conflict_def labs_conflict_def)

theorem lab_lab_conflict_iff_weeks_witness:
  "stype \<lparr>course = ''SC1'', stype = ''LAB'', day = 1, start = 840, finish = 960,
          weeks = {1, 3, 5, 7, 9, 11, 13}\<rparr> = ''LAB''
   \<and> stype \<lparr>course = ''SC2'', stype = ''LAB'', day = 1, start = 840, finish = 960,
          weeks = {2, 4, 6, 8, 10, 12}\<rparr> = ''LAB''
   \<and> sessions_overlap
       \<lparr>course = ''SC1'', stype = ''LAB'', day = 1, start = 840, finish = 960,
          weeks = {1, 3, 5, 7, 9, 11, 13}\<rparr>
       \<lparr>course = ''SC2'', stype = ''LAB'', day = 1, start = 840, finish = 960,
          weeks = {2, 4, 6, 8, 10, 12}\<rparr>
   \<and> weeks \<lparr>course = ''SC1'', stype = ''LAB'', day = 1, start = 840, finish = 960,
          weeks = {1, 3, 5, 7, 9, 11, 13}\<rparr>
       \<inter> weeks \<lparr>course = ''SC2'', stype = ''LAB'', day = 1, start = 840, finish = 960,
          weeks = {2, 4, 6, 8, 10, 12}\<rparr> = {}
   \<and> \<not> strict_conflict
       \<lparr>course = ''SC1'', stype = ''LAB'', day = 1, start = 840, finish = 960,
          weeks = {1, 3, 5, 7, 9, 11, 13}\<rparr>
       \<lparr>course = ''SC2'', stype = ''LAB'', day = 1, start = 840, finish = 960,
          weeks = {2, 4, 6, 8, 10, 12}\<rparr>"
  using lab_lab_conflict_iff_weeks
      [of "\<lparr>course = ''SC1'', stype = ''LAB'', day = 1, start = 840, finish = 960,
             weeks = {1, 3, 5, 7, 9, 11, 13}\<rparr>"
          "\<lparr>course = ''SC2'', stype = ''LAB'', day = 1, start = 840, finish = 960,
             weeks = {2, 4, 6, 8, 10, 12}\<rparr>"]
  by (simp add: sessions_overlap_iff)

section \<open>The constraints of the built model\<close>

lemma set_all_index_sessions:
  "set (all_index_sessions im) = {(c, i, s). \<exists>ss. ((c, i), ss) \<in> set im \<and> s \<in> set ss}"
  by (auto simp: all_index_sessions_def)

lemma set_lecture_check:
  "x \<in> set (lecture_check (c, i, s) lec)
     \<longleftrightarrow> x = Eq0 (Chosen c i) \<and> strict_conflict s lec \<and> weeks s \<inter> weeks lec \<noteq> {}"
  by (auto simp: lecture_check_def)

lemma set_lecture_constraints:
  "x \<in> set (lecture_constraints ais lectures)
     \<longleftrightarrow> (\<exists>e\<in>set ais. \<exists>lec\<in>set lectures. x \<in> set (lecture_check e lec))"
proof -
  have "lecture_constraints ais lectures =
      concat (map (\<lambda>e. concat (map (\<lambda>lec. lecture_check e lec) lectures)) (map ((!) ais) [0..<length ais]))"
    by (simp add: lecture_constraints_def comp_def)
  then have "lecture_constraints ais lectures =
      concat (map (\<lambda>e. concat (map (\<lambda>lec. lecture_check e lec) lectures)) ais)"
    by (simp only: map_nth)
  then show ?thesis by auto
qed

lemma set_pair_check:
  "x \<in> set (pair_check (c1, i1, s1) (c2, i2, s2))
     \<longleftrightarrow> x = SumLe1 (Chosen c1 i1) (Chosen c2 i2) \<and> c1 \<noteq> c2 \<and> strict_conflict s1 s2
          \<and> weeks s1 \<inter> weeks s2 \<noteq> {}"
  by (auto simp: pair_check_def)

lemma set_index_constraints:
  "x \<in> set (index_constraints ais)
     \<longleftrightarrow> (\<exists>i j. i < j \<and> j < length ais \<and> x \<in> set (pair_check (ais ! i) (ais ! j)))"
proof -
  have "x \<in> set (index_constraints ais)
     \<longleftrightarrow> (\<exists>i\<in>{0..<length ais}. \<exists>j\<in>{i + 1..<length ais}. x \<in> set (pair_check (ais ! i) (ais ! j)))"
    by (simp add: index_constraints_def)
  also have "\<dots> \<longleftrightarrow> (\<exists>i j. i < j \<and> j < length ais \<and> x \<in> set (pair_check (ais ! i) (ais ! j)))"
    (is "?A \<longleftrightarrow> ?B")
  proof
    assume ?A
    then obtain i j where "i + 1 \<le> j" "j < length ais" "x \<in> set (pair_check (ais ! i) (ais ! j))"
      by auto
    then show ?B by (intro exI[of _ i] exI[of _ j]) simp
  next
    assume ?B
    then obtain i j where "i < j" "j < length ais" "x \<in> set (pair_check (ais ! i) (ais ! j))"
      by blast
    then show ?A by (intro bexI[of _ i] bexI[of _ j]) auto
  qed
  finally show ?thesis .
qed

lemma set_exactly_one:
  "x \<in> set (exactly_one im sel)
     \<longleftrightarrow> (\<exists>c\<in>set sel. eligible im c \<noteq> [] \<and> x = SumEq1 (eligible im c))"
  by (auto simp: exactly_one_def)

lemma constraints_build_model:
  "constraints (model (build_model lectures im sel)) =
     exactly_one im sel @ lecture_constraints (all_index_sessions im) lectures
       @ index_constraints (all_index_sessions im) @ map (campus_constraint im) [0..<5]"
  by (simp add: build_model_def Let_def)

lemma Eq0_Chosen_in_constraints:
  "Eq0 (Chosen c i) \<in> set (constraints (model (build_model lectures im sel)))
     \<longleftrightarrow> (\<exists>ss s lec. ((c, i), ss) \<in> set im \<and> s \<in> set ss \<and> lec \<in> set lectures
            \<and> strict_conflict s lec \<and> weeks s \<inter> weeks lec \<noteq> {})"
  (is "?L = ?R")
proof
  assume ?L
  then have "Eq0 (Chosen c i) \<in> set (lecture_constraints (all_index_sessions im) lectures)"
    by (auto simp: constraints_build_model set_exactly_one set_index_constraints
        campus_constraint_def pair_check_def split: prod.splits if_splits)
  then show ?R
    by (auto simp: set_lecture_constraints set_all_index_sessions set_lecture_check)
next
  assume ?R
  then obtain ss s lec where h: "((c, i), ss) \<in> set im" "s \<in> set ss" "lec \<in> set lectures"
      "strict_conflict s lec" "weeks s \<inter> weeks lec \<noteq> {}" by blast
  then have "(c, i, s) \<in> set (all_index_sessions im)"
    by (auto simp: set_all_index_sessions)
  with h have "Eq0 (Chosen c i) \<in> set (lecture_constraints (all_index_sessions im) lectures)"
    unfolding set_lecture_constraints using set_lecture_check by blast
  then show ?L by (simp add: constraints_build_model)
qed

lemma SumLe1_in_constraints:
  "SumLe1 x y \<in> set (constraints (model (build_model lectures im sel)))
     \<longleftrightarrow> SumLe1 x y \<in> set (index_constraints (all_index_sessions im))"
  by (auto simp: constraints_build_model set_exactly_one set_lecture_constraints
        campus_constraint_def lecture_check_def split: prod.splits if_splits)

lemma SumLe1_sound:
  assumes "SumLe1 x y \<in> set (index_constraints (all_index_sessions im))"
  shows "\<exists>c1 i1 c2 i2 ss1 ss2 s1 s2. x = Chosen c1 i1 \<and> y = Chosen c2 i2 \<and> c1 \<noteq> c2
           \<and> ((c1, i1), ss1) \<in> set im \<and> ((c2, i2), ss2) \<in> set im \<and> s1 \<in> set ss1 \<and> s2 \<in> set ss2
           \<and> strict_conflict s1 s2 \<and> weeks s1 \<inter> weeks s2 \<noteq> {}"
proof -
  let ?ais = "all_index_sessions im"
  from assms obtain p q where pq: "p < q" "q < length ?ais"
      and m: "SumLe1 x y \<in> set (pair_check (?ais ! p) (?ais ! q))"
    unfolding set_index_constraints by blast
  obtain c1 i1 s1 where e1: "?ais ! p = (c1, i1, s1)" by (cases "?ais ! p")
  obtain c2 i2 s2 where e2: "?ais ! q = (c2, i2, s2)" by (cases "?ais ! q")
  from pq e1 have "(c1, i1, s1) \<in> set ?ais" by (metis less_trans nth_mem)
  then obtain ss1 where a1: "((c1, i1), ss1) \<in> set im" "s1 \<in> set ss1"
    by (auto simp: set_all_index_sessions)
  from pq e2 have "(c2, i2, s2) \<in> set ?ais" by (metis nth_mem)
  then obtain ss2 where a2: "((c2, i2), ss2) \<in> set im" "s2 \<in> set ss2"
    by (auto simp: set_all_index_sessions)
  from m e1 e2 have "x = Chosen c1 i1 \<and> y = Chosen c2 i2 \<and> c1 \<noteq> c2
      \<and> strict_conflict s1 s2 \<and> weeks s1 \<inter> weeks s2 \<noteq> {}"
    by (simp add: set_pair_check)
  with a1 a2 show ?thesis by blast
qed

lemma SumLe1_complete:
  assumes "((c1, i1), ss1) \<in> set im" "((c2, i2), ss2) \<in> set im" "s1 \<in> set ss1" "s2 \<in> set ss2"
    and "c1 \<noteq> c2" "strict_conflict s1 s2" "weeks s1 \<inter> weeks s2 \<noteq> {}"
  shows "SumLe1 (Chosen c1 i1) (Chosen c2 i2) \<in> set (index_constraints (all_index_sessions im))
       \<or> SumLe1 (Chosen c2 i2) (Chosen c1 i1) \<in> set (index_constraints (all_index_sessions im))"
proof -
  let ?ais = "all_index_sessions im"
  from assms have "(c1, i1, s1) \<in> set ?ais" "(c2, i2, s2) \<in> set ?ais"
    by (auto simp: set_all_index_sessions)
  then obtain p q where p: "p < length ?ais" "?ais ! p = (c1, i1, s1)"
      and q: "q < length ?ais" "?ais ! q = (c2, i2, s2)"
    by (metis in_set_conv_nth)
  from p q assms(5) have "p \<noteq> q" by auto
  then consider "p < q" | "q < p" by linarith
  then show ?thesis
  proof cases
    case 1
    with p q assms have "SumLe1 (Chosen c1 i1) (Chosen c2 i2) \<in> set (index_constraints ?ais)"
      unfolding set_index_constraints
      by (intro exI[of _ p] exI[of _ q]) (simp add: set_pair_check)
    then show ?thesis by simp
  next
    case 2
    from assms(6,7) have "strict_conflict s2 s1" "weeks s2 \<inter> weeks s1 \<noteq> {}"
      by (auto simp: strict_conflict_sym)
    with 2 p q assms(5) have "SumLe1 (Chosen c2 i2) (Chosen c1 i1) \<in> set (index_constraints ?ais)"
      unfolding set_index_constraints
      by (intro exI[of _ q] exI[of _ p]) (simp add: set_pair_check)
    then show ?thesis by simp
  qed
qed




text \<open>
  C7.  The model holds the constraint \<open>chosen[(c, i)] == 0\<close> exactly for the options
  \<open>(c, i)\<close> that have a session clashing (conflict and common week) with some lecture
  of the list of lectures, whatever the course of the lecture, the option's own course
  included; when every lecture belongs to a selected course, as \<open>load_lectures\<close>
  ensures, these are the lectures of the selected courses.  It holds a constraint
  \<open>chosen[a] + chosen[b] <= 1\<close>, in one order or the other, exactly for the pairs of
  options of different courses that have clashing sessions, and never for two options
  of the same course.
\<close>

theorem build_model_conflict_constraints:
  "(Eq0 (Chosen c i) \<in> set (constraints (model (build_model lectures index_map selected_courses))))
     = (\<exists>sessions s lec. ((c, i), sessions) \<in> set index_map \<and> s \<in> set sessions
          \<and> lec \<in> set lectures \<and> strict_conflict s lec \<and> weeks s \<inter> weeks lec \<noteq> {})
   \<and> ((\<forall>lec\<in>set lectures. course lec \<in> set selected_courses) \<longrightarrow>
        (Eq0 (Chosen c i) \<in> set (constraints (model (build_model lectures index_map selected_courses))))
          = (\<exists>sessions s lec. ((c, i), sessions) \<in> set index_map \<and> s \<in> set sessions
               \<and> lec \<in> set lectures \<and> course lec \<in> set selected_courses
               \<and> strict_conflict s lec \<and> weeks s \<inter> weeks lec \<noteq> {}))
   \<and> (SumLe1 (Chosen c1 i1) (Chosen c2 i2)
          \<in> set (constraints (model (build_model lectures index_map selected_courses)))
        \<or> SumLe1 (Chosen c2 i2) (Chosen c1 i1)
          \<in> set (constraints (model (build_model lectures index_map selected_courses))))
     = (c1 \<noteq> c2 \<and> (\<exists>sessions1 sessions2 s1 s2.
          ((c1, i1), sessions1) \<in> set index_map \<and> ((c2, i2), sessions2) \<in> set index_map
          \<and> s1 \<in> set sessions1 \<and> s2 \<in> set sessions2
          \<and> strict_conflict s1 s2 \<and> weeks s1 \<inter> weeks s2 \<noteq> {}))
   \<and> SumLe1 (Chosen c j1) (Chosen c j2)
        \<notin> set (constraints (model (build_model lectures index_map selected_courses)))"
proof (intro conjI)
  show a: "(Eq0 (Chosen c i) \<in> set (constraints (model (build_model lectures index_map selected_courses))))
     = (\<exists>sessions s lec. ((c, i), sessions) \<in> set index_map \<and> s \<in> set sessions
          \<and> lec \<in> set lectures \<and> strict_conflict s lec \<and> weeks s \<inter> weeks lec \<noteq> {})"
    by (rule Eq0_Chosen_in_constraints)
  show "(\<forall>lec\<in>set lectures. course lec \<in> set selected_courses) \<longrightarrow>
        (Eq0 (Chosen c i) \<in> set (constraints (model (build_model lectures index_map selected_courses))))
          = (\<exists>sessions s lec. ((c, i), sessions) \<in> set index_map \<and> s \<in> set sessions
               \<and> lec \<in> set lectures \<and> course lec \<in> set selected_courses
               \<and> strict_conflict s lec \<and> weeks s \<inter> weeks lec \<noteq> {})"
    unfolding a by blast
  show "(SumLe1 (Chosen c1 i1) (Chosen c2 i2)
          \<in> set (constraints (model (build_model lectures index_map selected_courses)))
        \<or> SumLe1 (Chosen c2 i2) (Chosen c1 i1)
          \<in> set (constraints (model (build_model lectures index_map selected_courses))))
     = (c1 \<noteq> c2 \<and> (\<exists>sessions1 sessions2 s1 s2.
          ((c1, i1), sessions1) \<in> set index_map \<and> ((c2, i2), sessions2) \<in> set index_map
          \<and> s1 \<in> set sessions1 \<and> s2 \<in> set sessions2
          \<and> strict_conflict s1 s2 \<and> weeks s1 \<inter> weeks s2 \<noteq> {}))" (is "?L = ?R")
  proof
    assume ?L
    then consider
        "SumLe1 (Chosen c1 i1) (Chosen c2 i2) \<in> set (index_constraints (all_index_sessions index_map))"
      | "SumLe1 (Chosen c2 i2) (Chosen c1 i1) \<in> set (index_constraints (all_index_sessions index_map))"
      unfolding SumLe1_in_constraints by blast
    then show ?R
    proof cases
      case 1
      from SumLe1_sound[OF this] show ?thesis by blast
    next
      case 2
      from SumLe1_sound[OF this] obtain ss1 ss2 s1 s2 where
        h: "c2 \<noteq> c1" "((c2, i2), ss1) \<in> set index_map" "((c1, i1), ss2) \<in> set index_map"
           "s1 \<in> set ss1" "s2 \<in> set ss2" "strict_conflict s1 s2" "weeks s1 \<inter> weeks s2 \<noteq> {}"
        by blast
      then have "strict_conflict s2 s1" "weeks s2 \<inter> weeks s1 \<noteq> {}"
        by (auto simp: strict_conflict_sym)
      with h show ?thesis by blast
    qed
  next
    assume ?R
    then show ?L unfolding SumLe1_in_constraints using SumLe1_complete by blast
  qed
  show "SumLe1 (Chosen c j1) (Chosen c j2)
        \<notin> set (constraints (model (build_model lectures index_map selected_courses)))"
    unfolding SumLe1_in_constraints using SumLe1_sound by blast
qed

theorem build_model_conflict_constraints_witness:
  "list_all (\<lambda>lec. course lec \<in> set [''SC1'', ''SC2''])
     [session_at ''SC1'' ''LEC'' 0 540 600 {1..13}]
   \<and> Eq0 (Chosen ''SC1'' 1) \<in> set (constraints (model (build_model
       [session_at ''SC1'' ''LEC'' 0 540 600 {1..13}]
       [((''SC1'', 1), [session_at ''SC1'' ''TUT'' 0 570 630 {1..13}]),
        ((''SC1'', 2), [session_at ''SC1'' ''TUT'' 1 540 600 {1..13}]),
        ((''SC2'', 1), [session_at ''SC2'' ''TUT'' 1 540 600 {1..13}])]
       [''SC1'', ''SC2''])))
   \<and> (SumLe1 (Chosen ''SC1'' 2) (Chosen ''SC2'' 1) \<in> set (constraints (model (build_model
         [session_at ''SC1'' ''LEC'' 0 540 600 {1..13}]
         [((''SC1'', 1), [session_at ''SC1'' ''TUT'' 0 570 630 {1..13}]),
          ((''SC1'', 2), [session_at ''SC1'' ''TUT'' 1 540 600 {1..13}]),
          ((''SC2'', 1), [session_at ''SC2'' ''TUT'' 1 540 600 {1..13}])]
         [''SC1'', ''SC2''])))
      \<or> SumLe1 (Chosen ''SC2'' 1) (Chosen ''SC1'' 2) \<in> set (constraints (model (build_model
         [session_at ''SC1'' ''LEC'' 0 540 600 {1..13}]
         [((''SC1'', 1), [session_at ''SC1'' ''TUT'' 0 570 630 {1..13}]),
          ((''SC1'', 2), [session_at ''SC1'' ''TUT'' 1 540 600 {1..13}]),
          ((''SC2'', 1), [session_at ''SC2'' ''TUT'' 1 540 600 {1..13}])]
         [''SC1'', ''SC2'']))))
   \<and> SumLe1 (Chosen ''SC1'' 1) (Chosen ''SC1'' 2) \<notin> set (constraints (model (build_model
       [session_at ''SC1'' ''LEC'' 0 540 600 {1..13}]
       [((''SC1'', 1), [session_at ''SC1'' ''TUT'' 0 570 630 {1..13}]),
        ((''SC1'', 2), [session_at ''SC1'' ''TUT'' 1 540 600 {1..13}]),
        ((''SC2'', 1), [session_at ''SC2'' ''TUT'' 1 540 600 {1..13}])]
       [''SC1'', ''SC2''])))"
proof -
  let ?L = "[session_at ''SC1'' ''LEC'' 0 540 600 {1..13}]"
  let ?IM = "[((''SC1'', 1), [session_at ''SC1'' ''TUT'' 0 570 630 {1..13}]),
        ((''SC1'', 2), [session_at ''SC1'' ''TUT'' 1 540 600 {1..13}]),
        ((''SC2'', 1), [session_at ''SC2'' ''TUT'' 1 540 600 {1..13}])]"
  let ?S = "[''SC1'', ''SC2'']"
  note t1 = build_model_conflict_constraints[of "''SC1''" 1 ?L ?IM ?S "''SC1''" 2 "''SC2''" 1 1 2]
  have h: "\<forall>lec\<in>set ?L. course lec \<in> set ?S" by simp
  have e: "\<exists>sessions s lec. ((''SC1'', 1), sessions) \<in> set ?IM \<and> s \<in> set sessions
          \<and> lec \<in> set ?L \<and> course lec \<in> set ?S \<and> strict_conflict s lec \<and> weeks s \<inter> weeks lec \<noteq> {}"
    by (intro exI[of _ "[session_at ''SC1'' ''TUT'' 0 570 630 {1..13}]"]
          exI[of _ "session_at ''SC1'' ''TUT'' 0 570 630 {1..13}"]
          exI[of _ "session_at ''SC1'' ''LEC'' 0 540 600 {1..13}"])
       (simp add: strict_conflict_def sessions_overlap_def)
  have p: "''SC1'' \<noteq> ''SC2'' \<and> (\<exists>sessions1 sessions2 s1 s2.
          ((''SC1'', 2), sessions1) \<in> set ?IM \<and> ((''SC2'', 1), sessions2) \<in> set ?IM
          \<and> s1 \<in> set sessions1 \<and> s2 \<in> set sessions2
          \<and> strict_conflict s1 s2 \<and> weeks s1 \<inter> weeks s2 \<noteq> {})"
    by (intro conjI exI[of _ "[session_at ''SC1'' ''TUT'' 1 540 600 {1..13}]"]
          exI[of _ "[session_at ''SC2'' ''TUT'' 1 540 600 {1..13}]"]
          exI[of _ "session_at ''SC1'' ''TUT'' 1 540 600 {1..13}"]
          exI[of _ "session_at ''SC2'' ''TUT'' 1 540 600 {1..13}"])
       (simp_all add: strict_conflict_def sessions_overlap_def)
  note w1 = iffD2[OF t1[THEN conjunct2, THEN conjunct1, THEN mp, OF h] e]
  note w2 = iffD2[OF t1[THEN conjunct2, THEN conjunct2, THEN conjunct1] p]
  note w3 = t1[THEN conjunct2, THEN conjunct2, THEN conjunct2]
  have w0: "list_all (\<lambda>lec. course lec \<in> set ?S) ?L" by simp
  from w0 w1 w2 w3 show ?thesis by (intro conjI)
qed

section \<open>Feasible assignments\<close>

lemma unique_one:
  "(\<forall>x\<in>set xs. v x = 0 \<or> v x = (1::int)) \<Longrightarrow> sum_list (map v xs) = 1
     \<Longrightarrow> \<exists>x\<in>set xs. v x = 1 \<and> (\<forall>y\<in>set xs. v y = 1 \<longrightarrow> y = x)"
proof (induction xs)
  case Nil
  then show ?case by simp
next
  case (Cons a xs)
  show ?case
  proof (cases "v a = 1")
    case True
    with Cons.prems have s0: "sum_list (map v xs) = 0" by simp
    have "\<forall>y\<in>set xs. v y = 0"
    proof
      fix y assume y: "y \<in> set xs"
      have "v y \<le> sum_list (map v xs)"
        by (rule member_le_sum_list) (use Cons.prems y in auto)
      with s0 Cons.prems y show "v y = 0" by auto
    qed
    with True show ?thesis by auto
  next
    case False
    with Cons.prems have "v a = 0" by auto
    with Cons.prems Cons.IH show ?thesis by auto
  qed
qed

lemma set_eligible:
  "set (eligible im c) = {Chosen c i | i. \<exists>ss. ((c, i), ss) \<in> set im}"
  by (auto simp: eligible_def)

lemma set_chosen_vars:
  "set (chosen_vars im) = {((c, i), Chosen c i) | c i. \<exists>ss. ((c, i), ss) \<in> set im}"
proof -
  have "chosen_vars im = map (\<lambda>((c, i), ss). ((c, i), Chosen c i)) im"
    by (simp add: chosen_vars_def)
  then show ?thesis by force
qed

lemma feasible_bool:
  assumes "feasible (model (build_model lectures im sel)) v" and "((c, i), ss) \<in> set im"
  shows "v (Chosen c i) = 0 \<or> v (Chosen c i) = 1"
proof -
  from assms(2) have "Chosen c i \<in> set (bool_vars (model (build_model lectures im sel)))"
    by (force simp: build_model_def Let_def set_chosen_vars)
  with assms(1) show ?thesis by (auto simp: feasible_def list_all_iff)
qed

lemma feasible_holds:
  "feasible m v \<Longrightarrow> c \<in> set (constraints m) \<Longrightarrow> holds v c"
  by (simp add: feasible_def list_all_iff)

lemma feasible_exactly_one:
  assumes f: "feasible (model (build_model lectures im sel)) v"
    and c: "c \<in> set sel" and k: "((c, i0), ss0) \<in> set im"
  shows "\<exists>i. (\<exists>ss. ((c, i), ss) \<in> set im) \<and> v (Chosen c i) = 1
           \<and> (\<forall>j ss. ((c, j), ss) \<in> set im \<and> v (Chosen c j) = 1 \<longrightarrow> j = i)"
proof -
  from k have ne: "eligible im c \<noteq> []" using set_eligible[of im c] by auto
  with c have "SumEq1 (eligible im c) \<in> set (constraints (model (build_model lectures im sel)))"
    by (auto simp: constraints_build_model set_exactly_one)
  from feasible_holds[OF f this] have s: "sum_list (map v (eligible im c)) = 1" by simp
  have b: "\<forall>x\<in>set (eligible im c). v x = 0 \<or> v x = 1"
    using feasible_bool[OF f] by (auto simp: set_eligible)
  from unique_one[OF b s] obtain x where x: "x \<in> set (eligible im c)" "v x = 1"
    "\<forall>y\<in>set (eligible im c). v y = 1 \<longrightarrow> y = x" by blast
  from x(1) obtain i ss where i: "x = Chosen c i" "((c, i), ss) \<in> set im"
    by (auto simp: set_eligible)
  have "\<forall>j ss'. ((c, j), ss') \<in> set im \<and> v (Chosen c j) = 1 \<longrightarrow> j = i"
  proof (intro allI impI)
    fix j ss' assume "((c, j), ss') \<in> set im \<and> v (Chosen c j) = 1"
    then have "Chosen c j \<in> set (eligible im c)" "v (Chosen c j) = 1"
      by (auto simp: set_eligible)
    with x(3) i(1) show "j = i" by auto
  qed
  with i x(2) show ?thesis by blast
qed

lemma map_of_fold_update:
  assumes "\<And>idx x. ((c, idx), x) \<in> set kvs \<Longrightarrow> v x = (1::int) \<Longrightarrow> idx = i"
  shows "map_of (fold (\<lambda>((c', idx), x) d. if v x = 1 then AList.update c' idx d else d) kvs d0) c
       = (if \<exists>x. ((c, i), x) \<in> set kvs \<and> v x = 1 then Some i else map_of d0 c)"
  using assms
proof (induction kvs arbitrary: d0)
  case Nil
  show ?case by simp
next
  case (Cons kv kvs)
  obtain c' idx x where kv: "kv = ((c', idx), x)" by (cases kv) auto
  let ?F = "\<lambda>((c', idx), x) d. if v x = 1 then AList.update c' idx d else d"
  let ?d1 = "?F kv d0"
  have p: "\<And>idx x. ((c, idx), x) \<in> set kvs \<Longrightarrow> v x = 1 \<Longrightarrow> idx = i"
    using Cons.prems by (meson list.set_intros(2))
  have ih: "map_of (fold ?F kvs ?d1) c
       = (if \<exists>x. ((c, i), x) \<in> set kvs \<and> v x = 1 then Some i else map_of ?d1 c)"
    by (rule Cons.IH[OF p])
  have d1: "map_of ?d1 c = (if v x = 1 \<and> c' = c then Some idx else map_of d0 c)"
    unfolding kv by (simp add: update_conv')
  have hd: "idx = i" if a: "v x = 1" "c' = c"
  proof -
    have "((c, idx), x) \<in> set (kv # kvs)" using kv a by simp
    from Cons.prems[OF this a(1)] show ?thesis .
  qed
  have f: "fold ?F (kv # kvs) d0 = fold ?F kvs ?d1" by simp
  show ?case
  proof (cases "\<exists>x. ((c, i), x) \<in> set kvs \<and> v x = 1")
    case True
    then have "\<exists>x. ((c, i), x) \<in> set (kv # kvs) \<and> v x = 1" by auto
    with True ih show ?thesis unfolding f by simp
  next
    case False
    have e1: "map_of (fold ?F kvs ?d1) c = map_of ?d1 c"
      using ih if_not_P[OF False] by (rule trans)
    show ?thesis
    proof (cases "v x = 1 \<and> c' = c")
      case True
      with hd have i: "idx = i" by simp
      have "((c, i), x) \<in> set (kv # kvs) \<and> v x = 1" using True kv i by simp
      then have ex: "\<exists>x. ((c, i), x) \<in> set (kv # kvs) \<and> v x = 1" by (rule exI)
      have "map_of ?d1 c = Some idx" using d1 if_P[OF True] by (rule trans)
      with e1 i have "map_of (fold ?F kvs ?d1) c = Some i" by simp
      then have "map_of (fold ?F (kv # kvs) d0) c = Some i" unfolding f .
      also have "Some i = (if \<exists>x. ((c, i), x) \<in> set (kv # kvs) \<and> v x = 1 then Some i else map_of d0 c)"
        using if_P[OF ex] by (rule sym)
      finally show ?thesis .
    next
      case F2: False
      have nex: "\<not> (\<exists>x. ((c, i), x) \<in> set (kv # kvs) \<and> v x = 1)"
      proof
        assume "\<exists>x. ((c, i), x) \<in> set (kv # kvs) \<and> v x = 1"
        then obtain y where y: "((c, i), y) \<in> set (kv # kvs)" "v y = 1" by blast
        from y(1) have "((c, i), y) = kv \<or> ((c, i), y) \<in> set kvs" by simp
        then show False
        proof
          assume "((c, i), y) = kv"
          with kv have "c' = c" "x = y" by simp_all
          with y(2) F2 show False by simp
        next
          assume "((c, i), y) \<in> set kvs"
          with y(2) False show False by blast
        qed
      qed
      have "map_of ?d1 c = map_of d0 c" using d1 if_not_P[OF F2] by (rule trans)
      with e1 have "map_of (fold ?F kvs ?d1) c = map_of d0 c" by (rule trans)
      then have "map_of (fold ?F (kv # kvs) d0) c = map_of d0 c" unfolding f .
      also have "map_of d0 c = (if \<exists>x. ((c, i), x) \<in> set (kv # kvs) \<and> v x = 1 then Some i else map_of d0 c)"
        using if_not_P[OF nex] by (rule sym)
      finally show ?thesis .
    qed
  qed
qed

lemma lookup_entry: "s \<in> set (lookup im k) \<Longrightarrow> \<exists>ss. (k, ss) \<in> set im \<and> s \<in> set ss"
proof (cases "map_of im k")
  case None
  assume "s \<in> set (lookup im k)"
  with None show ?thesis by (simp add: lookup_def)
next
  case (Some ss)
  assume "s \<in> set (lookup im k)"
  with Some have "s \<in> set ss" by (simp add: lookup_def)
  with map_of_SomeD[OF Some] show ?thesis by blast
qed

lemma strict_conflict_course [simp]:
  "strict_conflict (s\<lparr>course := c\<rparr>) t = strict_conflict s t"
  "strict_conflict s (t\<lparr>course := c\<rparr>) = strict_conflict s t"
  by (simp_all add: strict_conflict_def labs_conflict_def sessions_overlap_def)

section \<open>What a success of solve guarantees\<close>

lemma solve_Success_iff:
  "solve solver lectures im sel = Success idxs tt n \<Longrightarrow>
     (status (solver (model (build_model lectures im sel))) = OPTIMAL
       \<or> status (solver (model (build_model lectures im sel))) = FEASIBLE)
     \<and> idxs = fold (\<lambda>((c, idx), x) chosen_indexes.
                      if value_of (solver (model (build_model lectures im sel))) x = 1
                      then AList.update c idx chosen_indexes else chosen_indexes)
                (chosen_vars im) []
     \<and> tt = [s\<lparr>course := c\<rparr>.
                 ((c, idx), x) \<leftarrow> chosen_vars im,
                 value_of (solver (model (build_model lectures im sel))) x = 1,
                 s \<leftarrow> lookup im (c, idx)] @ lectures"
  by (auto simp: solve_def Let_def build_model_def split: if_splits)

lemma chosen_session_origin:
  assumes "x \<in> set [s\<lparr>course := c\<rparr>. ((c, idx), y) \<leftarrow> chosen_vars im, v y = (1::int),
                      s \<leftarrow> lookup im (c, idx)]"
  shows "\<exists>c idx s ss. ((c, idx), ss) \<in> set im \<and> v (Chosen c idx) = 1 \<and> s \<in> set ss
           \<and> x = s\<lparr>course := c\<rparr>"
proof -
  from assms obtain c idx y s where h: "((c, idx), y) \<in> set (chosen_vars im)" "v y = 1"
      "s \<in> set (lookup im (c, idx))" "x = s\<lparr>course := c\<rparr>"
    by (auto split: if_splits)
  from h(1) have y: "y = Chosen c idx" by (auto simp: set_chosen_vars)
  from lookup_entry[OF h(3)] obtain ss where "((c, idx), ss) \<in> set im" "s \<in> set ss" by blast
  with h y show ?thesis by blast
qed

lemma chosen_session_member:
  assumes "((c, idx), y) \<in> set (chosen_vars im)" and "v y = (1::int)"
    and "s \<in> set (lookup im (c, idx))"
  shows "s\<lparr>course := c\<rparr> \<in> set [s\<lparr>course := c\<rparr>. ((c, idx), y) \<leftarrow> chosen_vars im, v y = 1,
                      s \<leftarrow> lookup im (c, idx)]"
  using assms by force

text \<open>
  Two timetables for the examples, each with a solver that is sound on its model.  In the
  first the lectures of two courses share a slot; in the second a selected course has no
  index option.
\<close>

lemma clashing_lectures_sound: "sound_on
       (answering OPTIMAL [Chosen ''SC1'' 1, Chosen ''SC2'' 1, CampusDay 1, CampusDay 2])
       (model (build_model
          [session_at ''SC1'' ''LEC'' 0 540 600 {1..13}, session_at ''SC2'' ''LEC'' 0 540 600 {1..13}]
          [((''SC1'', 1), [session_at ''SC1'' ''TUT'' 1 540 600 {1..13}]),
           ((''SC2'', 1), [session_at ''SC2'' ''TUT'' 2 540 600 {1..13}])]
          [''SC1'', ''SC2'']))"
  by (simp add: sound_on_def feasible_def build_model_def chosen_vars_def exactly_one_def
      eligible_def all_index_sessions_def lecture_constraints_def lecture_check_def
      index_constraints_def pair_check_def campus_constraint_def day_sessions_def
      strict_conflict_def sessions_overlap_def upt_rec Let_def eval_nat_numeral answering_def)

lemma clashing_lectures_solve: "solve
       (answering OPTIMAL [Chosen ''SC1'' 1, Chosen ''SC2'' 1, CampusDay 1, CampusDay 2])
          [session_at ''SC1'' ''LEC'' 0 540 600 {1..13}, session_at ''SC2'' ''LEC'' 0 540 600 {1..13}]
          [((''SC1'', 1), [session_at ''SC1'' ''TUT'' 1 540 600 {1..13}]),
           ((''SC2'', 1), [session_at ''SC2'' ''TUT'' 2 540 600 {1..13}])]
          [''SC1'', ''SC2'']
     = Success [(''SC1'', 1), (''SC2'', 1)]
         [session_at ''SC1'' ''TUT'' 1 540 600 {1..13}, session_at ''SC2'' ''TUT'' 2 540 600 {1..13},
          session_at ''SC1'' ''LEC'' 0 540 600 {1..13}, session_at ''SC2'' ''LEC'' 0 540 600 {1..13}]
         2"
  by (simp add: solve_def build_model_def chosen_vars_def lookup_def upt_rec Let_def
      eval_nat_numeral answering_def)

lemma course_without_options_sound: "sound_on
       (answering OPTIMAL [Chosen ''SC1'' 1, CampusDay 1])
       (model (build_model []
          [((''SC1'', 1), [session_at ''SC1'' ''TUT'' 1 540 600 {1..13}])]
          [''SC1'', ''SC3'']))"
  by (simp add: sound_on_def feasible_def build_model_def chosen_vars_def exactly_one_def
      eligible_def all_index_sessions_def lecture_constraints_def lecture_check_def
      index_constraints_def pair_check_def campus_constraint_def day_sessions_def
      strict_conflict_def sessions_overlap_def upt_rec Let_def eval_nat_numeral answering_def)

lemma course_without_options_solve: "solve
       (answering OPTIMAL [Chosen ''SC1'' 1, CampusDay 1])
          []
          [((''SC1'', 1), [session_at ''SC1'' ''TUT'' 1 540 600 {1..13}])]
          [''SC1'', ''SC3'']
     = Success [(''SC1'', 1)] [session_at ''SC1'' ''TUT'' 1 540 600 {1..13}] 1"
  by (simp add: solve_def build_model_def chosen_vars_def lookup_def upt_rec Let_def
      eval_nat_numeral answering_def)

text \<open>
  C1 (as amended).  When the solver is sound on the built model and \<open>solve\<close> returns a
  success, every selected course that has at least one index option is mapped by the
  returned assignment to one of its options, that option is the only one of the course
  whose variable is 1, and its sessions are in the returned timetable.  The timetable is
  the sessions of the options whose variable is 1, followed by the lectures; no such
  session clashes (conflict and common week) with a lecture, and no two of them that
  belong to different courses clash.  Nothing is said of a selected course without
  options, nor of two lectures: the model has no variable for a lecture.
\<close>

theorem solve_success_no_clash:
  assumes snd: "sound_on solver (model (build_model lectures index_map selected_courses))"
    and ok: "solve solver lectures index_map selected_courses = Success idxs tt n"
  shows "(\<forall>c\<in>set selected_courses. (\<exists>i sessions. ((c, i), sessions) \<in> set index_map) \<longrightarrow>
            (\<exists>i. map_of idxs c = Some i \<and> (\<exists>sessions. ((c, i), sessions) \<in> set index_map)
               \<and> (\<forall>j sessions. ((c, j), sessions) \<in> set index_map \<longrightarrow>
                     (value_of (solver (model (build_model lectures index_map selected_courses)))
                        (Chosen c j) = 1) = (j = i))
               \<and> (\<forall>s\<in>set (lookup index_map (c, i)). s\<lparr>course := c\<rparr> \<in> set tt)))
       \<and> (\<exists>chosen_sessions. tt = chosen_sessions @ lectures
            \<and> (\<forall>x\<in>set chosen_sessions. \<exists>c i sessions s.
                  ((c, i), sessions) \<in> set index_map
                  \<and> value_of (solver (model (build_model lectures index_map selected_courses)))
                      (Chosen c i) = 1
                  \<and> s \<in> set sessions \<and> x = s\<lparr>course := c\<rparr>)
            \<and> (\<forall>x\<in>set chosen_sessions. \<forall>lec\<in>set lectures.
                  \<not> (strict_conflict x lec \<and> weeks x \<inter> weeks lec \<noteq> {}))
            \<and> (\<forall>x\<in>set chosen_sessions. \<forall>y\<in>set chosen_sessions. course x \<noteq> course y \<longrightarrow>
                  \<not> (strict_conflict x y \<and> weeks x \<inter> weeks y \<noteq> {})))"
proof -
  let ?m = "model (build_model lectures index_map selected_courses)"
  let ?v = "value_of (solver ?m)"
  let ?cs = "[s\<lparr>course := c\<rparr>. ((c, idx), x) \<leftarrow> chosen_vars index_map, ?v x = 1,
               s \<leftarrow> lookup index_map (c, idx)]"
  note u = solve_Success_iff[OF ok]
  from u have st: "status (solver ?m) = OPTIMAL \<or> status (solver ?m) = FEASIBLE" by blast
  from u have idxs: "idxs = fold (\<lambda>((c, idx), x) chosen_indexes.
                      if ?v x = 1 then AList.update c idx chosen_indexes else chosen_indexes)
                (chosen_vars index_map) []" by blast
  from u have tt: "tt = ?cs @ lectures" by blast
  from snd st have f: "feasible ?m ?v" by (simp add: sound_on_def)
  have part1: "\<exists>i. map_of idxs c = Some i \<and> (\<exists>sessions. ((c, i), sessions) \<in> set index_map)
               \<and> (\<forall>j sessions. ((c, j), sessions) \<in> set index_map \<longrightarrow> (?v (Chosen c j) = 1) = (j = i))
               \<and> (\<forall>s\<in>set (lookup index_map (c, i)). s\<lparr>course := c\<rparr> \<in> set tt)"
    if c: "c \<in> set selected_courses" and k: "((c, i0), ss0) \<in> set index_map" for c i0 ss0
  proof -
    from feasible_exactly_one[OF f c k] obtain i ss where
      i: "((c, i), ss) \<in> set index_map" "?v (Chosen c i) = 1"
         "\<forall>j ss. ((c, j), ss) \<in> set index_map \<and> ?v (Chosen c j) = 1 \<longrightarrow> j = i"
      by blast
    have pre: "idx = i" if "((c, idx), x) \<in> set (chosen_vars index_map)" "?v x = 1" for idx x
    proof -
      from that(1) obtain ss' where "x = Chosen c idx" "((c, idx), ss') \<in> set index_map"
        by (auto simp: set_chosen_vars)
      with that(2) i(3) show ?thesis by blast
    qed
    have mem: "((c, i), Chosen c i) \<in> set (chosen_vars index_map)"
      using i(1) by (auto simp: set_chosen_vars)
    have ex: "\<exists>x. ((c, i), x) \<in> set (chosen_vars index_map) \<and> ?v x = 1"
      using mem i(2) by blast
    have "map_of idxs c = (if \<exists>x. ((c, i), x) \<in> set (chosen_vars index_map) \<and> ?v x = 1
                            then Some i else map_of [] c)"
      unfolding idxs by (rule map_of_fold_update) (rule pre)
    also have "\<dots> = Some i" using ex by (rule if_P)
    finally have m: "map_of idxs c = Some i" .
    have un: "\<forall>j sessions. ((c, j), sessions) \<in> set index_map \<longrightarrow> (?v (Chosen c j) = 1) = (j = i)"
      using i(2,3) by blast
    have inc: "\<forall>s\<in>set (lookup index_map (c, i)). s\<lparr>course := c\<rparr> \<in> set tt"
    proof
      fix s assume "s \<in> set (lookup index_map (c, i))"
      from chosen_session_member[where v = ?v, OF mem i(2) this] show "s\<lparr>course := c\<rparr> \<in> set tt"
        unfolding tt by simp
    qed
    from m i(1) un inc show ?thesis by blast
  qed
  have orig: "\<exists>c i sessions s. ((c, i), sessions) \<in> set index_map \<and> ?v (Chosen c i) = 1
                  \<and> s \<in> set sessions \<and> x = s\<lparr>course := c\<rparr>"
    if x: "x \<in> set ?cs" for x
    using chosen_session_origin[OF x] by blast
  have lec: "\<not> (strict_conflict x l \<and> weeks x \<inter> weeks l \<noteq> {})"
    if x: "x \<in> set ?cs" and l: "l \<in> set lectures" for x l
  proof
    assume cl: "strict_conflict x l \<and> weeks x \<inter> weeks l \<noteq> {}"
    from chosen_session_origin[OF x] obtain c idx s ss where
      o: "((c, idx), ss) \<in> set index_map" "?v (Chosen c idx) = 1" "s \<in> set ss" "x = s\<lparr>course := c\<rparr>"
      by blast
    from cl o(4) have "strict_conflict s l \<and> weeks s \<inter> weeks l \<noteq> {}" by simp
    with o l have "Eq0 (Chosen c idx) \<in> set (constraints ?m)"
      unfolding Eq0_Chosen_in_constraints by blast
    from feasible_holds[OF f this] have "?v (Chosen c idx) = 0" by simp
    with o(2) show False by simp
  qed
  have pair: "\<not> (strict_conflict x y \<and> weeks x \<inter> weeks y \<noteq> {})"
    if x: "x \<in> set ?cs" and y: "y \<in> set ?cs" and ne: "course x \<noteq> course y" for x y
  proof
    assume cl: "strict_conflict x y \<and> weeks x \<inter> weeks y \<noteq> {}"
    from chosen_session_origin[OF x] obtain c1 i1 s1 ss1 where
      o1: "((c1, i1), ss1) \<in> set index_map" "?v (Chosen c1 i1) = 1" "s1 \<in> set ss1"
          "x = s1\<lparr>course := c1\<rparr>"
      by blast
    from chosen_session_origin[OF y] obtain c2 i2 s2 ss2 where
      o2: "((c2, i2), ss2) \<in> set index_map" "?v (Chosen c2 i2) = 1" "s2 \<in> set ss2"
          "y = s2\<lparr>course := c2\<rparr>"
      by blast
    from ne o1(4) o2(4) have c: "c1 \<noteq> c2" by simp
    from cl o1(4) o2(4) have cl': "strict_conflict s1 s2" "weeks s1 \<inter> weeks s2 \<noteq> {}" by simp_all
    have "SumLe1 (Chosen c1 i1) (Chosen c2 i2) \<in> set (index_constraints (all_index_sessions index_map))
       \<or> SumLe1 (Chosen c2 i2) (Chosen c1 i1) \<in> set (index_constraints (all_index_sessions index_map))"
      by (rule SumLe1_complete[OF o1(1) o2(1) o1(3) o2(3) c cl'])
    then have "SumLe1 (Chosen c1 i1) (Chosen c2 i2) \<in> set (constraints ?m)
       \<or> SumLe1 (Chosen c2 i2) (Chosen c1 i1) \<in> set (constraints ?m)"
      unfolding SumLe1_in_constraints .
    then have "?v (Chosen c1 i1) + ?v (Chosen c2 i2) \<le> 1"
      using feasible_holds[OF f] by fastforce
    with o1(2) o2(2) show False by simp
  qed
  from part1 have p1: "\<forall>c\<in>set selected_courses. (\<exists>i sessions. ((c, i), sessions) \<in> set index_map) \<longrightarrow>
            (\<exists>i. map_of idxs c = Some i \<and> (\<exists>sessions. ((c, i), sessions) \<in> set index_map)
               \<and> (\<forall>j sessions. ((c, j), sessions) \<in> set index_map \<longrightarrow> (?v (Chosen c j) = 1) = (j = i))
               \<and> (\<forall>s\<in>set (lookup index_map (c, i)). s\<lparr>course := c\<rparr> \<in> set tt))"
    by blast
  have p2: "\<exists>chosen_sessions. tt = chosen_sessions @ lectures
            \<and> (\<forall>x\<in>set chosen_sessions. \<exists>c i sessions s.
                  ((c, i), sessions) \<in> set index_map \<and> ?v (Chosen c i) = 1
                  \<and> s \<in> set sessions \<and> x = s\<lparr>course := c\<rparr>)
            \<and> (\<forall>x\<in>set chosen_sessions. \<forall>lec\<in>set lectures.
                  \<not> (strict_conflict x lec \<and> weeks x \<inter> weeks lec \<noteq> {}))
            \<and> (\<forall>x\<in>set chosen_sessions. \<forall>y\<in>set chosen_sessions. course x \<noteq> course y \<longrightarrow>
                  \<not> (strict_conflict x y \<and> weeks x \<inter> weeks y \<noteq> {}))"
  proof (intro exI[of _ ?cs] conjI ballI impI)
    show "tt = ?cs @ lectures" by (rule tt)
  next
    fix x assume "x \<in> set ?cs"
    then show "\<exists>c i sessions s. ((c, i), sessions) \<in> set index_map \<and> ?v (Chosen c i) = 1
                  \<and> s \<in> set sessions \<and> x = s\<lparr>course := c\<rparr>" by (rule orig)
  next
    fix x l assume "x \<in> set ?cs" "l \<in> set lectures"
    then show "\<not> (strict_conflict x l \<and> weeks x \<inter> weeks l \<noteq> {})" by (rule lec)
  next
    fix x y assume "x \<in> set ?cs" "y \<in> set ?cs" "course x \<noteq> course y"
    then show "\<not> (strict_conflict x y \<and> weeks x \<inter> weeks y \<noteq> {})" by (rule pair)
  qed
  from p1 p2 show ?thesis by (rule conjI)
qed

theorem solve_success_no_clash_witness:
  "sound_on
       (answering OPTIMAL [Chosen ''SC1'' 1, Chosen ''SC2'' 1, CampusDay 1, CampusDay 2])
       (model (build_model
          [session_at ''SC1'' ''LEC'' 0 540 600 {1..13}, session_at ''SC2'' ''LEC'' 0 540 600 {1..13}]
          [((''SC1'', 1), [session_at ''SC1'' ''TUT'' 1 540 600 {1..13}]),
           ((''SC2'', 1), [session_at ''SC2'' ''TUT'' 2 540 600 {1..13}])]
          [''SC1'', ''SC2'']))
   \<and> solve
       (answering OPTIMAL [Chosen ''SC1'' 1, Chosen ''SC2'' 1, CampusDay 1, CampusDay 2])
          [session_at ''SC1'' ''LEC'' 0 540 600 {1..13}, session_at ''SC2'' ''LEC'' 0 540 600 {1..13}]
          [((''SC1'', 1), [session_at ''SC1'' ''TUT'' 1 540 600 {1..13}]),
           ((''SC2'', 1), [session_at ''SC2'' ''TUT'' 2 540 600 {1..13}])]
          [''SC1'', ''SC2'']
     = Success [(''SC1'', 1), (''SC2'', 1)]
         [session_at ''SC1'' ''TUT'' 1 540 600 {1..13}, session_at ''SC2'' ''TUT'' 2 540 600 {1..13},
          session_at ''SC1'' ''LEC'' 0 540 600 {1..13}, session_at ''SC2'' ''LEC'' 0 540 600 {1..13}]
         2
   \<and> (\<exists>i. map_of [(''SC1'', 1 :: int), (''SC2'', 1)] ''SC1'' = Some i
          \<and> (\<exists>sessions. ((''SC1'', i), sessions)
                \<in> set [((''SC1'', 1 :: int), [session_at ''SC1'' ''TUT'' 1 540 600 {1..13}]),
                        ((''SC2'', 1), [session_at ''SC2'' ''TUT'' 2 540 600 {1..13}])]))"
proof -
  let ?IM = "[((''SC1'', 1 :: int), [session_at ''SC1'' ''TUT'' 1 540 600 {1..13}]),
              ((''SC2'', 1), [session_at ''SC2'' ''TUT'' 2 540 600 {1..13}])]"
  note t = solve_success_no_clash[OF clashing_lectures_sound clashing_lectures_solve, THEN conjunct1]
  have sel: "''SC1'' \<in> set [''SC1'', ''SC2'']" by simp
  have opt: "\<exists>i sessions. ((''SC1'', i), sessions) \<in> set ?IM"
    by (intro exI[of _ 1] exI[of _ "[session_at ''SC1'' ''TUT'' 1 540 600 {1..13}]"]) simp
  note r = bspec[OF t sel, THEN mp, OF opt]
  from r have "\<exists>i. map_of [(''SC1'', 1 :: int), (''SC2'', 1)] ''SC1'' = Some i
          \<and> (\<exists>sessions. ((''SC1'', i), sessions) \<in> set ?IM)"
    apply (elim exE conjE)
    apply (intro exI conjI)
    apply assumption
    apply assumption
    done
  with clashing_lectures_sound clashing_lectures_solve show ?thesis by (intro conjI)
qed

text \<open>
  The claim as first stated fails on both timetables: \<open>solve\<close> succeeds on the first
  although the two lectures, of different courses, clash; and it succeeds on the second
  although the returned assignment has no index for the selected course \<open>SC3\<close>.
\<close>

theorem solve_success_clash_counterexample:
  "sound_on
       (answering OPTIMAL [Chosen ''SC1'' 1, Chosen ''SC2'' 1, CampusDay 1, CampusDay 2])
       (model (build_model
          [session_at ''SC1'' ''LEC'' 0 540 600 {1..13}, session_at ''SC2'' ''LEC'' 0 540 600 {1..13}]
          [((''SC1'', 1), [session_at ''SC1'' ''TUT'' 1 540 600 {1..13}]),
           ((''SC2'', 1), [session_at ''SC2'' ''TUT'' 2 540 600 {1..13}])]
          [''SC1'', ''SC2'']))
   \<and> solve
       (answering OPTIMAL [Chosen ''SC1'' 1, Chosen ''SC2'' 1, CampusDay 1, CampusDay 2])
          [session_at ''SC1'' ''LEC'' 0 540 600 {1..13}, session_at ''SC2'' ''LEC'' 0 540 600 {1..13}]
          [((''SC1'', 1), [session_at ''SC1'' ''TUT'' 1 540 600 {1..13}]),
           ((''SC2'', 1), [session_at ''SC2'' ''TUT'' 2 540 600 {1..13}])]
          [''SC1'', ''SC2'']
     = Success [(''SC1'', 1), (''SC2'', 1)]
         [session_at ''SC1'' ''TUT'' 1 540 600 {1..13}, session_at ''SC2'' ''TUT'' 2 540 600 {1..13},
          session_at ''SC1'' ''LEC'' 0 540 600 {1..13}, session_at ''SC2'' ''LEC'' 0 540 600 {1..13}]
         2
   \<and> course (session_at ''SC1'' ''LEC'' 0 540 600 {1..13})
       \<noteq> course (session_at ''SC2'' ''LEC'' 0 540 600 {1..13})
   \<and> strict_conflict (session_at ''SC1'' ''LEC'' 0 540 600 {1..13})
       (session_at ''SC2'' ''LEC'' 0 540 600 {1..13})
   \<and> weeks (session_at ''SC1'' ''LEC'' 0 540 600 {1..13})
       \<inter> weeks (session_at ''SC2'' ''LEC'' 0 540 600 {1..13}) \<noteq> {}
   \<and> sound_on
       (answering OPTIMAL [Chosen ''SC1'' 1, CampusDay 1])
       (model (build_model []
          [((''SC1'', 1), [session_at ''SC1'' ''TUT'' 1 540 600 {1..13}])]
          [''SC1'', ''SC3'']))
   \<and> solve
       (answering OPTIMAL [Chosen ''SC1'' 1, CampusDay 1])
          []
          [((''SC1'', 1), [session_at ''SC1'' ''TUT'' 1 540 600 {1..13}])]
          [''SC1'', ''SC3'']
     = Success [(''SC1'', 1)] [session_at ''SC1'' ''TUT'' 1 540 600 {1..13}] 1
   \<and> ''SC3'' \<in> set [''SC1'', ''SC3'']
   \<and> map_of [(''SC1'', 1 :: int)] ''SC3'' = None"
proof -
  have a: "course (session_at ''SC1'' ''LEC'' 0 540 600 {1..13})
       \<noteq> course (session_at ''SC2'' ''LEC'' 0 540 600 {1..13})" by simp
  have b: "strict_conflict (session_at ''SC1'' ''LEC'' 0 540 600 {1..13})
       (session_at ''SC2'' ''LEC'' 0 540 600 {1..13})"
    by (simp add: strict_conflict_def sessions_overlap_def)
  have c: "weeks (session_at ''SC1'' ''LEC'' 0 540 600 {1..13})
       \<inter> weeks (session_at ''SC2'' ''LEC'' 0 540 600 {1..13}) \<noteq> {}" by simp
  have d: "''SC3'' \<in> set [''SC1'', ''SC3'']" by simp
  have e: "map_of [(''SC1'', 1 :: int)] ''SC3'' = None" by simp
  from clashing_lectures_sound clashing_lectures_solve a b c course_without_options_sound course_without_options_solve d e show ?thesis by (intro conjI)
qed

section \<open>Parsing the teaching weeks\<close>

lemma those_map_Some: "those (map Some ns) = Some ns"
  by (induction ns) simp_all

lemma those_None: "None \<in> set xs \<Longrightarrow> those xs = None"
  by (induction xs) (auto split: option.splits)

text \<open>
  C10.  \<open>parse_weeks\<close> returns the default set of the pattern (\<open>{1..13}\<close> for \<open>all\<close>,
  the even weeks for \<open>even\<close>, the odd weeks for \<open>odd\<close>) when the remark is not a string,
  is blank, or has a piece between commas that \<open>int\<close> rejects.  When every piece is an
  integer, the result is the set of these integers under \<open>all\<close>, and its intersection
  with the even or the odd weeks under \<open>even\<close> or \<open>odd\<close>: the remark \<open>1,3\<close> gives the empty
  set under \<open>even\<close>, and \<open>0,14\<close> gives \<open>{0, 14}\<close> under \<open>all\<close>.  So \<open>load_indexes\<close> returns
  sessions whose week set is empty, or is not within 1 to 13.
\<close>

theorem parse_weeks_default_or_filtered:
  "((\<forall>r. remark = Str r \<longrightarrow>
        py_strip r = []
        \<or> (\<exists>w\<in>set (py_split CHR '','' (remove_all ''Teaching Wk'' r)).
              py_int (py_strip w) = None)) \<longrightarrow>
      parse_weeks remark ''all'' = {1..13}
      \<and> parse_weeks remark ''even'' = {2, 4, 6, 8, 10, 12}
      \<and> parse_weeks remark ''odd'' = {1, 3, 5, 7, 9, 11, 13})
   \<and> (py_strip r \<noteq> []
        \<and> map (\<lambda>w. py_int (py_strip w)) (py_split CHR '','' (remove_all ''Teaching Wk'' r))
            = map Some ns \<longrightarrow>
      parse_weeks (Str r) ''all'' = set ns
      \<and> parse_weeks (Str r) ''even'' = set ns \<inter> {2, 4, 6, 8, 10, 12}
      \<and> parse_weeks (Str r) ''odd'' = set ns \<inter> {1, 3, 5, 7, 9, 11, 13})
   \<and> parse_weeks (Str ''1,3'') ''even'' = {}
   \<and> parse_weeks (Str ''0,14'') ''all'' = {0, 14}
   \<and> load_indexes
        [\<lparr>r_course = ''SC1'', r_index = 1, r_type = ''TUT'', r_day = Str ''Mon'',
           r_start = Str ''09:00'', r_end = Str ''10:00'', r_remark = Some (Str ''1,3'')\<rparr>,
         \<lparr>r_course = ''SC1'', r_index = 2, r_type = ''LAB'', r_day = Str ''Tue'',
           r_start = Str ''1400'', r_end = Str ''1600'', r_remark = Some (Str ''0,14'')\<rparr>]
        [''SC1''] ''even''
      = [((''SC1'', 1), [session_at ''SC1'' ''TUT'' 0 540 600 {}]),
         ((''SC1'', 2), [session_at ''SC1'' ''LAB'' 1 840 960 {}])]
   \<and> load_indexes
        [\<lparr>r_course = ''SC1'', r_index = 2, r_type = ''LAB'', r_day = Str ''Tue'',
           r_start = Str ''1400'', r_end = Str ''1600'', r_remark = Some (Str ''0,14'')\<rparr>]
        [''SC1''] ''all''
      = [((''SC1'', 2), [session_at ''SC1'' ''LAB'' 1 840 960 {0, 14}])]"
proof (intro conjI impI)
  assume a: "\<forall>r. remark = Str r \<longrightarrow>
        py_strip r = []
        \<or> (\<exists>w\<in>set (py_split CHR '','' (remove_all ''Teaching Wk'' r)).
              py_int (py_strip w) = None)"
  have th: "those (map (\<lambda>w. py_int (py_strip w)) (py_split CHR '','' (remove_all ''Teaching Wk'' r))) = None"
    if "remark = Str r" "py_strip r \<noteq> []" for r
  proof -
    from a that obtain w where "w \<in> set (py_split CHR '','' (remove_all ''Teaching Wk'' r))"
      "py_int (py_strip w) = None" by blast
    then have "None \<in> set (map (\<lambda>w. py_int (py_strip w)) (py_split CHR '','' (remove_all ''Teaching Wk'' r)))"
      by force
    then show ?thesis by (rule those_None)
  qed
  have u: "set [1..13] = {1..13::int}" by simp
  show "parse_weeks remark ''all'' = {1..13}"
    using th by (cases remark) (auto simp: parse_weeks_def Let_def u simp del: set_upto)
  show "parse_weeks remark ''even'' = {2, 4, 6, 8, 10, 12}"
    using th by (cases remark) (auto simp: parse_weeks_def Let_def)
  show "parse_weeks remark ''odd'' = {1, 3, 5, 7, 9, 11, 13}"
    using th by (cases remark) (auto simp: parse_weeks_def Let_def)
next
  assume b: "py_strip r \<noteq> []
        \<and> map (\<lambda>w. py_int (py_strip w)) (py_split CHR '','' (remove_all ''Teaching Wk'' r))
            = map Some ns"
  then have t: "those (map (\<lambda>w. py_int (py_strip w)) (py_split CHR '','' (remove_all ''Teaching Wk'' r))) = Some ns"
    by (simp add: those_map_Some)
  from b t show "parse_weeks (Str r) ''all'' = set ns"
    by (simp add: parse_weeks_def Let_def)
  from b t show "parse_weeks (Str r) ''even'' = set ns \<inter> {2, 4, 6, 8, 10, 12}"
    by (simp add: parse_weeks_def Let_def)
  from b t show "parse_weeks (Str r) ''odd'' = set ns \<inter> {1, 3, 5, 7, 9, 11, 13}"
    by (simp add: parse_weeks_def Let_def)
next
  show "parse_weeks (Str ''1,3'') ''even'' = {}" by code_simp
  show "parse_weeks (Str ''0,14'') ''all'' = {0, 14}" by code_simp
  show "load_indexes
        [\<lparr>r_course = ''SC1'', r_index = 1, r_type = ''TUT'', r_day = Str ''Mon'',
           r_start = Str ''09:00'', r_end = Str ''10:00'', r_remark = Some (Str ''1,3'')\<rparr>,
         \<lparr>r_course = ''SC1'', r_index = 2, r_type = ''LAB'', r_day = Str ''Tue'',
           r_start = Str ''1400'', r_end = Str ''1600'', r_remark = Some (Str ''0,14'')\<rparr>]
        [''SC1''] ''even''
      = [((''SC1'', 1), [session_at ''SC1'' ''TUT'' 0 540 600 {}]),
         ((''SC1'', 2), [session_at ''SC1'' ''LAB'' 1 840 960 {}])]" by code_simp
  show "load_indexes
        [\<lparr>r_course = ''SC1'', r_index = 2, r_type = ''LAB'', r_day = Str ''Tue'',
           r_start = Str ''1400'', r_end = Str ''1600'', r_remark = Some (Str ''0,14'')\<rparr>]
        [''SC1''] ''all''
      = [((''SC1'', 2), [session_at ''SC1'' ''LAB'' 1 840 960 {0, 14}])]" by code_simp
qed

theorem parse_weeks_default_or_filtered_witness:
  "py_split CHR '','' (remove_all ''Teaching Wk'' ''abc'') = [''abc'']
   \<and> py_int (py_strip ''abc'') = None
   \<and> parse_weeks (Str ''abc'') ''odd'' = {1, 3, 5, 7, 9, 11, 13}
   \<and> map (\<lambda>w. py_int (py_strip w))
         (py_split CHR '','' (remove_all ''Teaching Wk'' ''Teaching Wk2,4,6,7''))
       = map Some [2, 4, 6, 7]
   \<and> parse_weeks (Str ''Teaching Wk2,4,6,7'') ''even'' = {2, 4, 6}"
proof -
  have s: "py_split CHR '','' (remove_all ''Teaching Wk'' ''abc'') = [''abc'']" by code_simp
  have n: "py_int (py_strip ''abc'') = None" by code_simp
  have p1: "\<forall>r. Str ''abc'' = Str r \<longrightarrow>
        py_strip r = []
        \<or> (\<exists>w\<in>set (py_split CHR '','' (remove_all ''Teaching Wk'' r)).
              py_int (py_strip w) = None)"
  proof (intro allI impI)
    fix r assume "Str ''abc'' = Str r"
    then have r: "r = ''abc''" by simp
    show "py_strip r = []
        \<or> (\<exists>w\<in>set (py_split CHR '','' (remove_all ''Teaching Wk'' r)).
              py_int (py_strip w) = None)"
      unfolding r s using n by simp
  qed
  note a = parse_weeks_default_or_filtered[where remark = "Str ''abc''", THEN conjunct1, THEN mp,
      OF p1, THEN conjunct2, THEN conjunct2]
  have m: "map (\<lambda>w. py_int (py_strip w))
         (py_split CHR '','' (remove_all ''Teaching Wk'' ''Teaching Wk2,4,6,7''))
       = map Some [2, 4, 6, 7]" by code_simp
  have e: "py_strip ''Teaching Wk2,4,6,7'' \<noteq> []" by code_simp
  note b = parse_weeks_default_or_filtered[where r = "''Teaching Wk2,4,6,7''"
      and ns = "[2, 4, 6, 7]", THEN conjunct2, THEN conjunct1, THEN mp, OF conjI[OF e m],
      THEN conjunct2, THEN conjunct1]
  have i: "set [2, 4, 6, 7] \<inter> {2, 4, 6, 8, 10, 12} = {2, 4, 6 :: int}" by auto
  from b have c: "parse_weeks (Str ''Teaching Wk2,4,6,7'') ''even'' = {2, 4, 6}"
    unfolding i .
  from s n a m c show ?thesis by (intro conjI)
qed

section \<open>Courses without options, and the failure of solve\<close>

lemma SumEq1_in_constraints:
  "SumEq1 xs \<in> set (constraints (model (build_model lectures im sel)))
     \<longleftrightarrow> (\<exists>c\<in>set sel. eligible im c \<noteq> [] \<and> xs = eligible im c)"
  by (auto simp: constraints_build_model set_exactly_one set_lecture_constraints
        set_index_constraints campus_constraint_def lecture_check_def pair_check_def
        split: prod.splits if_splits)

lemma solve_cases:
  "solve solver lectures im sel =
     (if status (solver (model (build_model lectures im sel))) \<noteq> OPTIMAL
         \<and> status (solver (model (build_model lectures im sel))) \<noteq> FEASIBLE
      then Failure (analyze_infeasibility lectures im sel)
      else Success
             (fold (\<lambda>((c, idx), x) chosen_indexes.
                      if value_of (solver (model (build_model lectures im sel))) x = 1
                      then AList.update c idx chosen_indexes else chosen_indexes)
                (chosen_vars im) [])
             ([s\<lparr>course := c\<rparr>.
                 ((c, idx), x) \<leftarrow> chosen_vars im,
                 value_of (solver (model (build_model lectures im sel))) x = 1,
                 s \<leftarrow> lookup im (c, idx)] @ lectures)
             (sum_list [value_of (solver (model (build_model lectures im sel)))
                          (map CampusDay [0..<5] ! d). d \<leftarrow> [0..<5]]))"
  by (simp add: solve_def Let_def build_model_def)




text \<open>
  C6 (as amended).  For one selected course with a lecture and a single index option
  whose only session clashes with that lecture (conflict and common week), as a lecture
  on Monday from 09:00 to 10:00 in all weeks and a tutorial in the same slot do, \<open>solve\<close>
  with a solver that is sound on the built model returns a failure, and its message is
  \<open>No feasible schedule found due to timing conflicts\<close>: with a single selected course
  \<open>analyze_infeasibility\<close> returns this message whatever the lectures and the options
  are, since it compares the lectures of a course with the options of the other selected
  courses only.
\<close>

theorem solve_own_lecture_clash:
  assumes snd: "sound_on solver (model (build_model [lec] [((c, i), [s])] [c]))"
    and cl: "strict_conflict s lec" and wk: "weeks s \<inter> weeks lec \<noteq> {}"
  shows "solve solver [lec] [((c, i), [s])] [c]
           = Failure ''No feasible schedule found due to timing conflicts''
       \<and> analyze_infeasibility lectures index_map [c]
           = ''No feasible schedule found due to timing conflicts''"
proof
  let ?m = "model (build_model [lec] [((c, i), [s])] [c])"
  let ?v = "value_of (solver ?m)"
  have an: "analyze_infeasibility lectures index_map [c]
           = ''No feasible schedule found due to timing conflicts''" for lectures index_map
  proof -
    have l: "lecture_hits lectures index_map [c] = []"
      by (induction lectures) (simp_all add: lecture_hits_def)
    have p: "index_hits index_map [c] = []"
      by (simp add: index_hits_def course_pairs_def)
    show ?thesis by (simp add: analyze_infeasibility_def l p)
  qed
  show "analyze_infeasibility lectures index_map [c]
           = ''No feasible schedule found due to timing conflicts''" by (rule an)
  have e: "eligible [((c, i), [s])] c = [Chosen c i]" by (simp add: eligible_def)
  have one: "SumEq1 [Chosen c i] \<in> set (constraints ?m)"
    unfolding SumEq1_in_constraints using e by simp
  have zero: "Eq0 (Chosen c i) \<in> set (constraints ?m)"
    unfolding Eq0_Chosen_in_constraints using cl wk by simp
  have "\<not> feasible ?m ?v"
  proof
    assume f: "feasible ?m ?v"
    from feasible_holds[OF f one] have "?v (Chosen c i) = 1" by simp
    moreover from feasible_holds[OF f zero] have "?v (Chosen c i) = 0" by simp
    ultimately show False by simp
  qed
  with snd have "status (solver ?m) \<noteq> OPTIMAL \<and> status (solver ?m) \<noteq> FEASIBLE"
    by (auto simp: sound_on_def)
  then have "solve solver [lec] [((c, i), [s])] [c]
      = Failure (analyze_infeasibility [lec] [((c, i), [s])] [c])"
    unfolding solve_cases by simp
  then show "solve solver [lec] [((c, i), [s])] [c]
           = Failure ''No feasible schedule found due to timing conflicts''"
    unfolding an .
qed

theorem solve_own_lecture_clash_witness:
  "sound_on (answering INFEASIBLE [])
     (model (build_model [session_at ''SC1'' ''LEC'' 0 540 600 {1..13}]
        [((''SC1'', 1), [session_at ''SC1'' ''TUT'' 0 540 600 {1..13}])] [''SC1'']))
   \<and> strict_conflict (session_at ''SC1'' ''TUT'' 0 540 600 {1..13})
        (session_at ''SC1'' ''LEC'' 0 540 600 {1..13})
   \<and> weeks (session_at ''SC1'' ''TUT'' 0 540 600 {1..13})
        \<inter> weeks (session_at ''SC1'' ''LEC'' 0 540 600 {1..13}) \<noteq> {}
   \<and> solve (answering INFEASIBLE []) [session_at ''SC1'' ''LEC'' 0 540 600 {1..13}]
        [((''SC1'', 1), [session_at ''SC1'' ''TUT'' 0 540 600 {1..13}])] [''SC1'']
      = Failure ''No feasible schedule found due to timing conflicts''"
proof -
  have a: "sound_on (answering INFEASIBLE [])
     (model (build_model [session_at ''SC1'' ''LEC'' 0 540 600 {1..13}]
        [((''SC1'', 1), [session_at ''SC1'' ''TUT'' 0 540 600 {1..13}])] [''SC1'']))"
    by (simp add: sound_on_def answering_def)
  have b: "strict_conflict (session_at ''SC1'' ''TUT'' 0 540 600 {1..13})
        (session_at ''SC1'' ''LEC'' 0 540 600 {1..13})"
    by (simp add: strict_conflict_def sessions_overlap_def)
  have c: "weeks (session_at ''SC1'' ''TUT'' 0 540 600 {1..13})
        \<inter> weeks (session_at ''SC1'' ''LEC'' 0 540 600 {1..13}) \<noteq> {}" by simp
  note t = solve_own_lecture_clash[OF a b c, THEN conjunct1]
  from a b c t show ?thesis by (intro conjI)
qed

text \<open>
  The claim as first stated fails on the scenario itself: the message names neither the
  course nor its lecture.
\<close>

theorem analyze_own_lecture_clash_counterexample:
  "solve (answering INFEASIBLE []) [session_at ''SC1'' ''LEC'' 0 540 600 {1..13}]
        [((''SC1'', 1), [session_at ''SC1'' ''TUT'' 0 540 600 {1..13}])] [''SC1'']
      = Failure ''No feasible schedule found due to timing conflicts''
   \<and> analyze_infeasibility [session_at ''SC1'' ''LEC'' 0 540 600 {1..13}]
        [((''SC1'', 1), [session_at ''SC1'' ''TUT'' 0 540 600 {1..13}])] [''SC1'']
      = ''No feasible schedule found due to timing conflicts''
   \<and> \<not> sublist ''SC1'' ''No feasible schedule found due to timing conflicts''
   \<and> \<not> sublist ''lecture'' ''No feasible schedule found due to timing conflicts''"
proof -
  have a: "analyze_infeasibility [session_at ''SC1'' ''LEC'' 0 540 600 {1..13}]
        [((''SC1'', 1), [session_at ''SC1'' ''TUT'' 0 540 600 {1..13}])] [''SC1'']
      = ''No feasible schedule found due to timing conflicts''"
    by (simp add: analyze_infeasibility_def lecture_hits_def index_hits_def course_pairs_def)
  have s: "solve (answering INFEASIBLE []) [session_at ''SC1'' ''LEC'' 0 540 600 {1..13}]
        [((''SC1'', 1), [session_at ''SC1'' ''TUT'' 0 540 600 {1..13}])] [''SC1'']
      = Failure ''No feasible schedule found due to timing conflicts''"
    unfolding solve_cases a by (simp add: answering_def)
  have n1: "\<not> sublist ''SC1'' ''No feasible schedule found due to timing conflicts''"
    by code_simp
  have n2: "\<not> sublist ''lecture'' ''No feasible schedule found due to timing conflicts''"
    by code_simp
  from s a n1 n2 show ?thesis by (intro conjI)
qed

end
